theory Spec2Isabelle
  imports Complex_Main "HOL-Library.AList" "HOL-Library.Log_Nat"
begin

unbundle bit_operations_syntax

section \<open>Conventions of the embedding\<close>

text \<open>
  The Python sources are embedded as follows.
  \<^item> A \<open>datetime.date\<close> is its proleptic ordinal, an \<open>int\<close>; the number of days between
    two dates is the difference of the ordinals, and \<open>date.today()\<close> is a parameter
    \<open>today\<close> of every function that reads the clock.
  \<^item> A Python \<open>float\<close> is the rational number it denotes, a \<open>rat\<close>. The attendance
    rate and the grade point averages are computed as Python computes them, in IEEE 754
    binary64: every division, product, sum and \<open>round(x, n)\<close> is rounded to the nearest
    double, ties to even (\<open>fdiv\<close>, \<open>fmul\<close>, \<open>fadd\<close>, \<open>fround\<close> below); infinities and
    NaN are not modelled, so the results are those of Python while they stay below
    \<open>2 ^ 1024\<close> in magnitude. The match scores, the thresholds and the pass rate are
    sums, quotients and comparisons of a few fixed constants and small counts; they are
    kept exact.
  \<^item> A Python \<open>str\<close> is a \<open>string\<close>; the character classes are those of ASCII.
  \<^item> A value of an untyped source record (\<open>Dict[str, Any]\<close>) is a \<open>pyval\<close>: \<open>None\<close>,
    a string or an integer. A \<open>dict\<close> is a map; where the iteration order of the
    dictionary is read, it is an association list in insertion order.
  \<^item> A method that mutates \<open>self\<close> returns the updated object next to its result.
  \<^item> Fields that only carry rendered text for the user interface (messages, details,
    timestamps) are left out of the records.
\<close>

section \<open>Python strings and values\<close>

definition is_space :: "char \<Rightarrow> bool" where
  "is_space c = (c \<in> set [CHR 0x09, CHR 0x0A, CHR 0x0B, CHR 0x0C, CHR 0x0D,
                            CHR 0x1C, CHR 0x1D, CHR 0x1E, CHR 0x1F, CHR '' ''])"

definition is_upper :: "char \<Rightarrow> bool" where
  "is_upper c = (c \<in> set ''ABCDEFGHIJKLMNOPQRSTUVWXYZ'')"

definition is_lower :: "char \<Rightarrow> bool" where
  "is_lower c = (c \<in> set ''abcdefghijklmnopqrstuvwxyz'')"

definition is_digit :: "char \<Rightarrow> bool" where
  "is_digit c = (c \<in> set ''0123456789'')"

definition is_word :: "char \<Rightarrow> bool" where
  "is_word c = (is_upper c \<or> is_lower c \<or> is_digit c \<or> c = CHR ''_'')"

definition lower_char :: "char \<Rightarrow> char" where
  "lower_char c =
     (case map_of (zip ''ABCDEFGHIJKLMNOPQRSTUVWXYZ'' ''abcdefghijklmnopqrstuvwxyz'') c of
        None \<Rightarrow> c | Some l \<Rightarrow> l)"

definition upper_char :: "char \<Rightarrow> char" where
  "upper_char c =
     (case map_of (zip ''abcdefghijklmnopqrstuvwxyz'' ''ABCDEFGHIJKLMNOPQRSTUVWXYZ'') c of
        None \<Rightarrow> c | Some u \<Rightarrow> u)"

text \<open>\<open>str.lower()\<close>, \<open>str.upper()\<close> and \<open>str.strip()\<close>.\<close>

definition lower :: "string \<Rightarrow> string" where
  "lower s = map lower_char s"

definition upper :: "string \<Rightarrow> string" where
  "upper s = map upper_char s"

definition strip :: "string \<Rightarrow> string" where
  "strip s = rev (dropWhile is_space (rev (dropWhile is_space s)))"

text \<open>
  \<open>str.title()\<close>: a cased character that follows a cased character is lowered, any other
  cased character is raised.
\<close>

fun title_from :: "bool \<Rightarrow> string \<Rightarrow> string" where
  "title_from prev [] = []"
| "title_from prev (c # cs) =
     (if is_lower c then (if prev then c else upper_char c) # title_from True cs
      else if is_upper c then (if prev then lower_char c else c) # title_from True cs
      else c # title_from False cs)"

definition title :: "string \<Rightarrow> string" where
  "title s = title_from False s"

text \<open>\<open>re.sub(r'\s+', ' ', s)\<close>: every maximal run of whitespace becomes one blank.\<close>

fun collapse_from :: "bool \<Rightarrow> string \<Rightarrow> string" where
  "collapse_from prev [] = []"
| "collapse_from prev (c # cs) =
     (if is_space c then (if prev then collapse_from True cs else CHR '' '' # collapse_from True cs)
      else c # collapse_from False cs)"

definition collapse_spaces :: "string \<Rightarrow> string" where
  "collapse_spaces s = collapse_from False s"

datatype pyval = PNone | PStr string | PInt int

fun nat_digits :: "nat \<Rightarrow> string" where
  "nat_digits n =
     (if n < 10 then [''0123456789'' ! n]
      else nat_digits (n div 10) @ [''0123456789'' ! (n mod 10)])"

declare nat_digits.simps [simp del]

text \<open>\<open>str(v)\<close> and the truth value of \<open>v\<close>.\<close>

fun py_str :: "pyval \<Rightarrow> string" where
  "py_str PNone = ''None''"
| "py_str (PStr s) = s"
| "py_str (PInt i) = (if i < 0 then CHR ''-'' # nat_digits (nat (- i)) else nat_digits (nat i))"

fun truthy :: "pyval \<Rightarrow> bool" where
  "truthy PNone = False"
| "truthy (PStr s) = (s \<noteq> [])"
| "truthy (PInt i) = (i \<noteq> 0)"

type_synonym pydict = "string \<rightharpoonup> pyval"

text \<open>\<open>d.get(k, default)\<close>; \<open>d.get(k)\<close> is \<open>dict_get d k PNone\<close>.\<close>

definition dict_get :: "pydict \<Rightarrow> string \<Rightarrow> pyval \<Rightarrow> pyval" where
  "dict_get d k dflt = (case d k of None \<Rightarrow> dflt | Some v \<Rightarrow> v)"

text \<open>\<open>a or b\<close> on values.\<close>

definition py_or :: "pyval \<Rightarrow> pyval \<Rightarrow> pyval" where
  "py_or a b = (if truthy a then a else b)"

text \<open>
  \<open>int(v)\<close> inside \<open>try\<close>: \<open>None\<close> stands for the \<open>ValueError\<close> or \<open>TypeError\<close> that the
  caller catches. A string converts when, stripped, it is an optional sign and digits
  (the digit separator \<open>_\<close> is not modelled).
\<close>

definition digits_value :: "string \<Rightarrow> int" where
  "digits_value s =
     foldl (\<lambda>a c. 10 * a + int (length (takeWhile (\<lambda>d. d \<noteq> c) ''0123456789''))) 0 s"

fun py_int :: "pyval \<Rightarrow> int option" where
  "py_int PNone = None"
| "py_int (PInt i) = Some i"
| "py_int (PStr s) =
     (case strip s of
        [] \<Rightarrow> None
      | c # cs \<Rightarrow>
          if c = CHR ''-'' \<and> cs \<noteq> [] \<and> list_all is_digit cs then Some (- digits_value cs)
          else if c = CHR ''+'' \<and> cs \<noteq> [] \<and> list_all is_digit cs then Some (digits_value cs)
          else if list_all is_digit (c # cs) then Some (digits_value (c # cs))
          else None)"

text \<open>
  The decimal with \<open>n\<close> digits after the point that is nearest to \<open>x\<close>, ties to even:
  the string that \<open>round(x, n)\<close> computes before it converts it back to a float.
\<close>

definition py_round :: "nat \<Rightarrow> rat \<Rightarrow> rat" where
  "py_round n x =
     (let s = x * 10 ^ n; f = \<lfloor>s\<rfloor>; d = s - of_int f
      in of_int (if d < 1 / 2 then f else if 1 / 2 < d then f + 1
                 else if even f then f else f + 1) / 10 ^ n)"

section \<open>Python floats (IEEE 754 binary64)\<close>

text \<open>
  \<open>float_of x\<close> is the double nearest to the rational \<open>x\<close>, ties to even: with
  \<open>2 ^ k \<le> \<bar>x\<bar> < 2 ^ (k + 1)\<close> the doubles around \<open>x\<close> are the multiples of
  \<open>2 ^ (k - 52)\<close>, and of \<open>2 ^ - 1074\<close> in the subnormal range. \<open>bitlen\<close> is the
  number of binary digits of a positive integer.
\<close>

definition pow2 :: "int \<Rightarrow> rat" where
  "pow2 e = (if 0 \<le> e then 2 ^ nat e else 1 / 2 ^ nat (- e))"

definition round_half_even :: "rat \<Rightarrow> int" where
  "round_half_even s =
     (let f = \<lfloor>s\<rfloor>; d = s - of_int f
      in if d < 1 / 2 then f else if 1 / 2 < d then f + 1 else if even f then f else f + 1)"

definition floor_log2 :: "rat \<Rightarrow> int" where
  "floor_log2 x = (if 1 \<le> x then bitlen \<lfloor>x\<rfloor> - 1 else - bitlen (\<lceil>1 / x\<rceil> - 1))"

definition float_of :: "rat \<Rightarrow> rat" where
  "float_of x =
     (if x = 0 then 0
      else let e = max (floor_log2 \<bar>x\<bar> - 52) (- 1074)
           in sgn x * of_int (round_half_even (\<bar>x\<bar> / pow2 e)) * pow2 e)"

text \<open>
  \<open>x + y\<close>, \<open>x * y\<close> and \<open>x / y\<close> on floats, and \<open>a / b\<close> on integers, are the exact
  results rounded once; \<open>round(x, n)\<close> is the double nearest to the decimal
  \<open>py_round n x\<close>. Every division of the sources modelled here is guarded by a test
  that the divisor is positive.
\<close>

definition fadd :: "rat \<Rightarrow> rat \<Rightarrow> rat" where
  "fadd x y = float_of (x + y)"

definition fmul :: "rat \<Rightarrow> rat \<Rightarrow> rat" where
  "fmul x y = float_of (x * y)"

definition fdiv :: "rat \<Rightarrow> rat \<Rightarrow> rat" where
  "fdiv x y = float_of (x / y)"

definition fround :: "nat \<Rightarrow> rat \<Rightarrow> rat" where
  "fround n x = float_of (py_round n x)"

section \<open>MD5 (hashlib.md5)\<close>

text \<open>
  MD5 (RFC 1321) on byte strings, as \<open>hashlib.md5(key.encode()).hexdigest()\<close> computes it.
  A 32-bit word is an \<open>int\<close> in \<open>{0..<2^32}\<close> and every addition is reduced
  modulo \<open>2^32\<close>. Each row of \<open>md5_table\<close> is one of the 64 steps: the round
  (0 to 3), the additive constant, the rotation and the index of the message word.
\<close>

definition add32 :: "int \<Rightarrow> int \<Rightarrow> int" where
  "add32 x y = (x + y) mod 4294967296"

definition not32 :: "int \<Rightarrow> int" where
  "not32 x = 4294967295 - x"

definition rotl32 :: "int \<Rightarrow> nat \<Rightarrow> int" where
  "rotl32 x n = (x * 2 ^ n) mod 4294967296 + x div 2 ^ (32 - n)"

definition md5_table :: "(nat \<times> int \<times> nat \<times> nat) list" where
  "md5_table =
    [(0, 0xd76aa478, 7, 0), (0, 0xe8c7b756, 12, 1), (0, 0x242070db, 17, 2),
     (0, 0xc1bdceee, 22, 3), (0, 0xf57c0faf, 7, 4), (0, 0x4787c62a, 12, 5),
     (0, 0xa8304613, 17, 6), (0, 0xfd469501, 22, 7), (0, 0x698098d8, 7, 8),
     (0, 0x8b44f7af, 12, 9), (0, 0xffff5bb1, 17, 10), (0, 0x895cd7be, 22, 11),
     (0, 0x6b901122, 7, 12), (0, 0xfd987193, 12, 13), (0, 0xa679438e, 17, 14),
     (0, 0x49b40821, 22, 15), (1, 0xf61e2562, 5, 1), (1, 0xc040b340, 9, 6),
     (1, 0x265e5a51, 14, 11), (1, 0xe9b6c7aa, 20, 0), (1, 0xd62f105d, 5, 5),
     (1, 0x02441453, 9, 10), (1, 0xd8a1e681, 14, 15), (1, 0xe7d3fbc8, 20, 4),
     (1, 0x21e1cde6, 5, 9), (1, 0xc33707d6, 9, 14), (1, 0xf4d50d87, 14, 3),
     (1, 0x455a14ed, 20, 8), (1, 0xa9e3e905, 5, 13), (1, 0xfcefa3f8, 9, 2),
     (1, 0x676f02d9, 14, 7), (1, 0x8d2a4c8a, 20, 12), (2, 0xfffa3942, 4, 5),
     (2, 0x8771f681, 11, 8), (2, 0x6d9d6122, 16, 11), (2, 0xfde5380c, 23, 14),
     (2, 0xa4beea44, 4, 1), (2, 0x4bdecfa9, 11, 4), (2, 0xf6bb4b60, 16, 7),
     (2, 0xbebfbc70, 23, 10), (2, 0x289b7ec6, 4, 13), (2, 0xeaa127fa, 11, 0),
     (2, 0xd4ef3085, 16, 3), (2, 0x04881d05, 23, 6), (2, 0xd9d4d039, 4, 9),
     (2, 0xe6db99e5, 11, 12), (2, 0x1fa27cf8, 16, 15), (2, 0xc4ac5665, 23, 2),
     (3, 0xf4292244, 6, 0), (3, 0x432aff97, 10, 7), (3, 0xab9423a7, 15, 14),
     (3, 0xfc93a039, 21, 5), (3, 0x655b59c3, 6, 12), (3, 0x8f0ccc92, 10, 3),
     (3, 0xffeff47d, 15, 10), (3, 0x85845dd1, 21, 1), (3, 0x6fa87e4f, 6, 8),
     (3, 0xfe2ce6e0, 10, 15), (3, 0xa3014314, 15, 6), (3, 0x4e0811a1, 21, 13),
     (3, 0xf7537e82, 6, 4), (3, 0xbd3af235, 10, 11), (3, 0x2ad7d2bb, 15, 2),
     (3, 0xeb86d391, 21, 9)]"

definition md5_mix :: "nat \<Rightarrow> int \<Rightarrow> int \<Rightarrow> int \<Rightarrow> int" where
  "md5_mix r b c d =
     (if r = 0 then (b AND c) OR (not32 b AND d)
      else if r = 1 then (d AND b) OR (not32 d AND c)
      else if r = 2 then b XOR c XOR d
      else c XOR (b OR not32 d))"

fun md5_step ::
  "int list \<Rightarrow> nat \<times> int \<times> nat \<times> nat \<Rightarrow> int \<times> int \<times> int \<times> int \<Rightarrow> int \<times> int \<times> int \<times> int" where
  "md5_step m (r, k, s, g) (a, b, c, d) =
     (d, add32 b (rotl32 (add32 (add32 (add32 (md5_mix r b c d) a) k) (m ! g)) s), b, c)"

fun md5_block :: "int \<times> int \<times> int \<times> int \<Rightarrow> int list \<Rightarrow> int \<times> int \<times> int \<times> int" where
  "md5_block (a0, b0, c0, d0) m =
     (case fold (md5_step m) md5_table (a0, b0, c0, d0) of
        (a, b, c, d) \<Rightarrow> (add32 a0 a, add32 b0 b, add32 c0 c, add32 d0 d))"

definition md5_pad :: "int list \<Rightarrow> int list" where
  "md5_pad msg =
     msg @ [128] @ replicate ((119 - length msg mod 64) mod 64) 0 @
     map (\<lambda>i. (8 * int (length msg)) div 256 ^ i mod 256) [0, 1, 2, 3, 4, 5, 6, 7]"

fun le_words :: "int list \<Rightarrow> int list" where
  "le_words (b0 # b1 # b2 # b3 # bs) =
     (b0 + 256 * b1 + 65536 * b2 + 16777216 * b3) # le_words bs"
| "le_words bs = []"

fun md5_blocks :: "int \<times> int \<times> int \<times> int \<Rightarrow> int list \<Rightarrow> int \<times> int \<times> int \<times> int" where
  "md5_blocks h ws =
     (if length ws < 16 then h else md5_blocks (md5_block h (take 16 ws)) (drop 16 ws))"

declare md5_blocks.simps [simp del]

definition hex_byte :: "int \<Rightarrow> string" where
  "hex_byte b = [''0123456789abcdef'' ! nat (b div 16), ''0123456789abcdef'' ! nat (b mod 16)]"

definition le_hex :: "int \<Rightarrow> string" where
  "le_hex w = concat (map (\<lambda>i. hex_byte (w div 256 ^ i mod 256)) [0, 1, 2, 3])"

definition md5_hexdigest :: "string \<Rightarrow> string" where
  "md5_hexdigest s =
     (case md5_blocks (0x67452301, 0xefcdab89, 0x98badcfe, 0x10325476)
             (le_words (md5_pad (map of_char s))) of
        (a, b, c, d) \<Rightarrow> le_hex a @ le_hex b @ le_hex c @ le_hex d)"

section \<open>Attendance (modules/attendance.py)\<close>

datatype AttendanceStatus =
  PRESENT | ABSENT | TARDY | EXCUSED | UNEXCUSED | REMOTE | EARLY_DEPARTURE | HALF_DAY

datatype AttendanceType = DAILY | PERIOD | COURSE

record AttendanceRecord =
  ar_id :: string
  ar_student_id :: string
  ar_date :: int
  ar_status :: AttendanceStatus
  ar_attendance_type :: AttendanceType
  ar_period :: "int option"
  ar_teacher_name :: string
  ar_notes :: pyval
  ar_source_code :: string
  ar_source_system :: string

definition is_present :: "AttendanceRecord \<Rightarrow> bool" where
  "is_present r = (ar_status r \<in> set [PRESENT, TARDY, REMOTE, HALF_DAY])"

definition is_absent :: "AttendanceRecord \<Rightarrow> bool" where
  "is_absent r = (ar_status r \<in> set [ABSENT, EXCUSED, UNEXCUSED])"

record DailyAttendanceSummary =
  ds_student_id :: string
  ds_date :: int
  periods_present :: nat
  periods_absent :: nat
  periods_tardy :: nat
  total_periods :: nat
  daily_status :: AttendanceStatus
  period_records :: "AttendanceRecord list"

text \<open>
  \<open>DailyAttendanceSummary.calculate_daily_status\<close>: the method returns
  \<open>self.daily_status\<close>, which is the field \<open>daily_status\<close> of the summary returned here.
  \<open>total_periods / 2\<close> is Python's true division.
\<close>

definition calculate_daily_status :: "DailyAttendanceSummary \<Rightarrow> DailyAttendanceSummary" where
  "calculate_daily_status s =
     (if period_records s = [] then s
      else
        let total = length (period_records s);
            present = length (filter is_present (period_records s));
            absent = length (filter is_absent (period_records s));
            tardy = length (filter (\<lambda>r. ar_status r = TARDY) (period_records s));
            status =
              (if absent = total then ABSENT
               else if (of_nat absent :: rat) > of_nat total / 2 then HALF_DAY
               else if tardy > 0 \<and> absent = 0 then TARDY
               else PRESENT)
        in s\<lparr>total_periods := total, periods_present := present,
              periods_absent := absent, periods_tardy := tardy, daily_status := status\<rparr>)"

record AttendanceAggregate =
  ag_student_id :: string
  ag_start_date :: int
  ag_end_date :: int
  days_present :: nat
  days_absent :: nat
  days_tardy :: nat
  days_excused :: nat
  days_unexcused :: nat
  total_days :: nat
  attendance_rate :: rat

text \<open>
  \<open>AttendanceAggregate.calculate_rate\<close> returns \<open>self.attendance_rate\<close>, the field
  \<open>attendance_rate\<close> of the aggregate returned here. The quotient of the two integers,
  its product with 100 and the result of \<open>round\<close> are floats.
\<close>

definition calculate_rate :: "AttendanceAggregate \<Rightarrow> AttendanceAggregate" where
  "calculate_rate a =
     (if total_days a > 0
      then a\<lparr>attendance_rate :=
               fround 2 (fmul (fdiv (of_nat (days_present a + days_tardy a))
                                    (of_nat (total_days a))) 100)\<rparr>
      else a)"

definition CODE_MAPPINGS :: "(string \<times> AttendanceStatus) list" where
  "CODE_MAPPINGS =
    [(''p'', PRESENT), (''present'', PRESENT), (''pres'', PRESENT), (''pr'', PRESENT),
     (''1'', PRESENT), (''y'', PRESENT), (''yes'', PRESENT), (''in'', PRESENT),
     (''a'', ABSENT), (''absent'', ABSENT), (''abs'', ABSENT), (''ab'', ABSENT),
     (''0'', ABSENT), (''n'', ABSENT), (''no'', ABSENT), (''out'', ABSENT),
     (''t'', TARDY), (''tardy'', TARDY), (''late'', TARDY), (''l'', TARDY), (''lt'', TARDY),
     (''e'', EXCUSED), (''excused'', EXCUSED), (''exc'', EXCUSED), (''ex'', EXCUSED),
     (''ea'', EXCUSED), (''excused absence'', EXCUSED),
     (''u'', UNEXCUSED), (''unexcused'', UNEXCUSED), (''unex'', UNEXCUSED), (''ua'', UNEXCUSED),
     (''unexcused absence'', UNEXCUSED),
     (''r'', REMOTE), (''remote'', REMOTE), (''virtual'', REMOTE), (''v'', REMOTE),
     (''online'', REMOTE),
     (''ed'', EARLY_DEPARTURE), (''early'', EARLY_DEPARTURE),
     (''early departure'', EARLY_DEPARTURE), (''left early'', EARLY_DEPARTURE)]"

record AttendanceCodeMapper =
  unmapped_codes :: "string set"
  custom_mappings :: "string \<rightharpoonup> AttendanceStatus"

definition new_mapper :: AttendanceCodeMapper where
  "new_mapper = \<lparr>unmapped_codes = {}, custom_mappings = Map.empty\<rparr>"

definition add_custom_mapping ::
  "AttendanceCodeMapper \<Rightarrow> string \<Rightarrow> AttendanceStatus \<Rightarrow> AttendanceCodeMapper" where
  "add_custom_mapping m code st =
     m\<lparr>custom_mappings := (custom_mappings m)(strip (lower code) \<mapsto> st)\<rparr>"

text \<open>\<open>AttendanceCodeMapper.map_code\<close> returns \<open>(status, was_mapped)\<close> and the mapper.\<close>

definition map_code ::
  "AttendanceCodeMapper \<Rightarrow> string \<Rightarrow> (AttendanceStatus \<times> bool) \<times> AttendanceCodeMapper" where
  "map_code m code =
     (if code = [] then ((ABSENT, False), m)
      else
        let normalized = strip (lower code)
        in case custom_mappings m normalized of
             Some st \<Rightarrow> ((st, True), m)
           | None \<Rightarrow>
               (case map_of CODE_MAPPINGS normalized of
                  Some st \<Rightarrow> ((st, True), m)
                | None \<Rightarrow> ((ABSENT, False), m\<lparr>unmapped_codes := insert code (unmapped_codes m)\<rparr>)))"

text \<open>
  An entry of \<open>AttendanceProcessor.issues\<close>. The source stores \<open>str(date_value)\<close>; the
  issue here keeps the parsed date itself.
\<close>

datatype attendance_issue =
  Unmapped_code string "int option" string
| Duplicate_attendance string int "int option"
| Total_mismatch string

record AttendanceProcessor =
  ap_records :: "string \<rightharpoonup> AttendanceRecord list"
  daily_summaries :: "string \<rightharpoonup> (int \<rightharpoonup> DailyAttendanceSummary)"
  aggregates :: "string \<rightharpoonup> AttendanceAggregate"
  ap_issues :: "attendance_issue list"
  code_mapper :: AttendanceCodeMapper

definition new_processor :: AttendanceProcessor where
  "new_processor =
     \<lparr>ap_records = Map.empty, daily_summaries = Map.empty, aggregates = Map.empty,
      ap_issues = [], code_mapper = new_mapper\<rparr>"

text \<open>\<open>self.records.get(student_id, [])\<close>.\<close>

definition records_of :: "AttendanceProcessor \<Rightarrow> string \<Rightarrow> AttendanceRecord list" where
  "records_of p sid = (case ap_records p sid of None \<Rightarrow> [] | Some rs \<Rightarrow> rs)"

text \<open>
  \<open>AttendanceProcessor.process_record\<close>. The date parser (\<open>parse_date\<close>, a chain of
  \<open>strptime\<close> formats) and the rendering of a date inside the default record id are
  parameters \<open>parse\<close> and \<open>show_date\<close>: nothing below depends on what they compute.
\<close>

definition process_record ::
  "(pyval \<Rightarrow> int option) \<Rightarrow> (int option \<Rightarrow> string) \<Rightarrow> int \<Rightarrow>
   AttendanceProcessor \<Rightarrow> pydict \<Rightarrow> string \<Rightarrow> AttendanceRecord \<times> AttendanceProcessor" where
  "process_record parse show_date today p record source =
     (let student_id = py_str (dict_get record ''StudentID'' (dict_get record ''student_id'' (PStr [])));
          date_value = parse (dict_get record ''Date'' (dict_get record ''date'' (PStr [])));
          raw_code = strip (py_str (dict_get record ''Status'' (dict_get record ''status'' (PStr []))));
          ((status, was_mapped), mapper) = map_code (code_mapper p) raw_code;
          issues = (if \<not> was_mapped \<and> raw_code \<noteq> []
                    then ap_issues p @ [Unmapped_code student_id date_value raw_code]
                    else ap_issues p);
          period = dict_get record ''Period'' (dict_get record ''period'' PNone);
          period_int = (if period \<noteq> PNone then py_int period else None);
          attendance_type = (if period_int \<noteq> None then PERIOD else DAILY);
          default_id = student_id @ ''-'' @ show_date date_value @ ''-'' @
                       py_str (PInt (case period_int of None \<Rightarrow> 0 | Some n \<Rightarrow> n));
          attendance_record =
            \<lparr>ar_id = py_str (dict_get record ''ID'' (dict_get record ''id'' (PStr default_id))),
             ar_student_id = student_id,
             ar_date = (case date_value of None \<Rightarrow> today | Some d \<Rightarrow> d),
             ar_status = status,
             ar_attendance_type = attendance_type,
             ar_period = period_int,
             ar_teacher_name =
               title (strip (py_str (dict_get record ''Teacher'' (dict_get record ''teacher'' (PStr []))))),
             ar_notes = dict_get record ''Notes'' (dict_get record ''notes'' PNone),
             ar_source_code = raw_code,
             ar_source_system = source\<rparr>
      in (attendance_record,
          p\<lparr>ap_records := (ap_records p)(student_id \<mapsto> records_of p student_id @ [attendance_record]),
            ap_issues := issues, code_mapper := mapper\<rparr>))"

definition build_daily_summary ::
  "AttendanceProcessor \<Rightarrow> string \<Rightarrow> int \<Rightarrow> DailyAttendanceSummary \<times> AttendanceProcessor" where
  "build_daily_summary p student_id target_date =
     (let day_records = filter (\<lambda>r. ar_date r = target_date) (records_of p student_id);
          summary = calculate_daily_status
            \<lparr>ds_student_id = student_id, ds_date = target_date, periods_present = 0,
             periods_absent = 0, periods_tardy = 0, total_periods = 0, daily_status = PRESENT,
             period_records = day_records\<rparr>;
          per_student = (case daily_summaries p student_id of None \<Rightarrow> Map.empty | Some m \<Rightarrow> m)
      in (summary,
          p\<lparr>daily_summaries := (daily_summaries p)(student_id \<mapsto> per_student(target_date \<mapsto> summary))\<rparr>))"

text \<open>The dictionary \<open>by_date\<close> of \<open>calculate_aggregate\<close>, in insertion order.\<close>

definition group_by_date :: "AttendanceRecord list \<Rightarrow> (int \<times> AttendanceRecord list) list" where
  "group_by_date rs =
     fold (\<lambda>r by_date.
             AList.update (ar_date r)
               ((case map_of by_date (ar_date r) of None \<Rightarrow> [] | Some xs \<Rightarrow> xs) @ [r]) by_date)
          rs []"

definition count_day :: "AttendanceStatus \<Rightarrow> AttendanceAggregate \<Rightarrow> AttendanceAggregate" where
  "count_day status a =
     (if status = PRESENT then a\<lparr>days_present := days_present a + 1\<rparr>
      else if status = TARDY then a\<lparr>days_tardy := days_tardy a + 1\<rparr>
      else if status = EXCUSED then a\<lparr>days_excused := days_excused a + 1\<rparr>
      else if status = UNEXCUSED then a\<lparr>days_unexcused := days_unexcused a + 1\<rparr>
      else if status \<in> set [ABSENT, HALF_DAY] then a\<lparr>days_absent := days_absent a + 1\<rparr>
      else a)"

fun aggregate_days ::
  "string \<Rightarrow> (int \<times> AttendanceRecord list) list \<Rightarrow> AttendanceAggregate \<times> AttendanceProcessor \<Rightarrow>
   AttendanceAggregate \<times> AttendanceProcessor" where
  "aggregate_days student_id [] (a, p) = (a, p)"
| "aggregate_days student_id ((record_date, day_records) # rest) (a, p) =
     (case build_daily_summary p student_id record_date of
        (summary, p') \<Rightarrow> aggregate_days student_id rest (count_day (daily_status summary) a, p'))"

definition calculate_aggregate ::
  "AttendanceProcessor \<Rightarrow> string \<Rightarrow> int \<Rightarrow> int \<Rightarrow> AttendanceAggregate \<times> AttendanceProcessor" where
  "calculate_aggregate p student_id start end =
     (let relevant_records =
            filter (\<lambda>r. start \<le> ar_date r \<and> ar_date r \<le> end) (records_of p student_id);
          by_date = group_by_date relevant_records;
          aggregate0 =
            \<lparr>ag_student_id = student_id, ag_start_date = start, ag_end_date = end,
             days_present = 0, days_absent = 0, days_tardy = 0, days_excused = 0,
             days_unexcused = 0, total_days = length by_date, attendance_rate = 0\<rparr>
      in case aggregate_days student_id by_date (aggregate0, p) of
           (aggregate1, p1) \<Rightarrow>
             let aggregate2 = calculate_rate aggregate1
             in (aggregate2, p1\<lparr>aggregates := (aggregates p1)(student_id \<mapsto> aggregate2)\<rparr>))"

section \<open>Transcripts (modules/grades.py)\<close>

record TranscriptEntry =
  te_course_code :: string
  te_course_name :: string
  te_term :: string
  te_school_year :: string
  letter_grade :: string
  credits_attempted :: rat
  credits_earned :: rat
  grade_points :: rat
  is_weighted :: bool

record StudentTranscript =
  st_student_id :: string
  entries :: "TranscriptEntry list"
  cumulative_gpa :: rat
  weighted_gpa :: rat
  total_credits_attempted :: rat
  total_credits_earned :: rat

text \<open>
  One iteration of the loop of \<open>calculate_gpa\<close> over
  \<open>(total_quality_points, weighted_quality_points, total_credits)\<close>; every sum and
  product is a float operation.
\<close>

fun gpa_step :: "TranscriptEntry \<Rightarrow> rat \<times> rat \<times> rat \<Rightarrow> rat \<times> rat \<times> rat" where
  "gpa_step entry (total_quality_points, weighted_quality_points, total_credits) =
     (if credits_attempted entry > 0 then
        let weight_bonus = (if is_weighted entry then 1 / 2 else 0)
        in (fadd total_quality_points (fmul (grade_points entry) (credits_attempted entry)),
            fadd weighted_quality_points
              (fmul (fadd (grade_points entry) weight_bonus) (credits_attempted entry)),
            fadd total_credits (credits_attempted entry))
      else (total_quality_points, weighted_quality_points, total_credits))"

definition calculate_gpa :: "StudentTranscript \<Rightarrow> (rat \<times> rat) \<times> StudentTranscript" where
  "calculate_gpa t =
     (if entries t = [] then ((0, 0), t)
      else
        case fold gpa_step (entries t) (0, 0, 0) of
          (total_quality_points, weighted_quality_points, total_credits) \<Rightarrow>
            let cumulative = (if total_credits > 0
                              then fround 3 (fdiv total_quality_points total_credits) else 0);
                weighted = (if total_credits > 0
                            then fround 3 (fdiv weighted_quality_points total_credits) else 0)
            in ((cumulative, weighted),
                t\<lparr>total_credits_attempted := total_credits, cumulative_gpa := cumulative,
                  weighted_gpa := weighted\<rparr>))"

section \<open>Reconciliation (reconciliation/engine.py)\<close>

datatype CheckStatus = PASSED | FAILED | WARNING | SKIPPED | IN_PROGRESS

datatype CheckCategory = COUNT | REFERENTIAL | COMPLETENESS | SAMPLING | INTEGRITY | DOMAIN

record CheckResult =
  check_id :: string
  check_name :: string
  cr_category :: CheckCategory
  cr_status :: CheckStatus
  source_value :: "int option"
  target_value :: "int option"
  cr_threshold :: "rat option"
  actual_value :: "rat option"

record ReconciliationCheck =
  rc_id :: string
  rc_name :: string
  rc_category :: CheckCategory
  threshold :: rat
  is_blocking :: bool

record ReconciliationEngine =
  checks :: "ReconciliationCheck list"
  results :: "CheckResult list"
  source_data :: "string \<rightharpoonup> pydict list"
  target_data :: "string \<rightharpoonup> pydict list"

definition mk_check :: "string \<Rightarrow> string \<Rightarrow> CheckCategory \<Rightarrow> rat \<Rightarrow> bool \<Rightarrow> ReconciliationCheck" where
  "mk_check i n c t b = \<lparr>rc_id = i, rc_name = n, rc_category = c, threshold = t, is_blocking = b\<rparr>"

text \<open>The checks that \<open>_register_default_checks\<close> registers, in order.\<close>

definition default_checks :: "ReconciliationCheck list" where
  "default_checks =
    [mk_check ''count_students'' ''Student Count Match'' COUNT 1 True,
     mk_check ''count_guardians'' ''Guardian Count Match'' COUNT 1 False,
     mk_check ''count_enrollments'' ''Enrollment Count Match'' COUNT 1 False,
     mk_check ''count_grades'' ''Grade Record Count Match'' COUNT (99 / 100) False,
     mk_check ''count_attendance'' ''Attendance Record Count Match'' COUNT (99 / 100) False,
     mk_check ''ref_enrollment_student'' ''Enrollment-Student Reference'' REFERENTIAL 1 True,
     mk_check ''ref_grade_student'' ''Grade-Student Reference'' REFERENTIAL 1 True,
     mk_check ''ref_attendance_student'' ''Attendance-Student Reference'' REFERENTIAL 1 True,
     mk_check ''ref_guardian_student'' ''Guardian-Student Relationship'' REFERENTIAL 1 False,
     mk_check ''complete_student_guardian'' ''Student Guardian Coverage'' COMPLETENESS (995 / 1000) False,
     mk_check ''complete_student_contact'' ''Student Contact Info'' COMPLETENESS (99 / 100) False,
     mk_check ''complete_student_enrollment'' ''Student Enrollment'' COMPLETENESS 1 False,
     mk_check ''sample_student_data'' ''Student Data Sampling'' SAMPLING (99 / 100) False,
     mk_check ''sample_grade_data'' ''Grade Data Sampling'' SAMPLING (99 / 100) False,
     mk_check ''integrity_hash'' ''Data Hash Verification'' INTEGRITY 1 True]"

definition new_engine :: ReconciliationEngine where
  "new_engine =
     \<lparr>checks = default_checks, results = [], source_data = Map.empty, target_data = Map.empty\<rparr>"

definition set_source_data :: "ReconciliationEngine \<Rightarrow> string \<Rightarrow> pydict list \<Rightarrow> ReconciliationEngine" where
  "set_source_data e entity_type data = e\<lparr>source_data := (source_data e)(entity_type \<mapsto> data)\<rparr>"

definition set_target_data :: "ReconciliationEngine \<Rightarrow> string \<Rightarrow> pydict list \<Rightarrow> ReconciliationEngine" where
  "set_target_data e entity_type data = e\<lparr>target_data := (target_data e)(entity_type \<mapsto> data)\<rparr>"

text \<open>\<open>len(self.source_data.get(entity_type, []))\<close>.\<close>

definition data_count :: "(string \<rightharpoonup> pydict list) \<Rightarrow> string \<Rightarrow> nat" where
  "data_count d entity_type = (case d entity_type of None \<Rightarrow> 0 | Some xs \<Rightarrow> length xs)"

definition run_count_check :: "ReconciliationEngine \<Rightarrow> string \<Rightarrow> ReconciliationCheck \<Rightarrow> CheckResult" where
  "run_count_check e entity_type check =
     (let source_count = data_count (source_data e) entity_type;
          target_count = data_count (target_data e) entity_type
      in if source_count = 0 then
           \<lparr>check_id = rc_id check, check_name = rc_name check, cr_category = rc_category check,
            cr_status = SKIPPED, source_value = Some 0, target_value = Some 0,
            cr_threshold = None, actual_value = None\<rparr>
         else
           let match_rate = (if source_count > 0
                             then (of_nat target_count :: rat) / of_nat source_count else 0);
               passed = (match_rate \<ge> threshold check)
           in \<lparr>check_id = rc_id check, check_name = rc_name check, cr_category = rc_category check,
               cr_status = (if passed then PASSED else FAILED),
               source_value = Some (int source_count), target_value = Some (int target_count),
               cr_threshold = Some (threshold check), actual_value = Some match_rate\<rparr>)"

record Summary =
  total_checks :: nat
  passed :: nat
  failed :: nat
  warnings :: nat
  skipped :: nat
  blocking_failures :: nat
  overall_status :: string
  pass_rate :: rat

definition get_summary :: "ReconciliationEngine \<Rightarrow> Summary" where
  "get_summary e =
     (let n_passed = length (filter (\<lambda>r. cr_status r = PASSED) (results e));
          n_failed = length (filter (\<lambda>r. cr_status r = FAILED) (results e));
          n_warnings = length (filter (\<lambda>r. cr_status r = WARNING) (results e));
          n_skipped = length (filter (\<lambda>r. cr_status r = SKIPPED) (results e));
          n_blocking = length (filter
            (\<lambda>r. cr_status r = FAILED \<and>
                 list_ex (\<lambda>c. rc_id c = check_id r \<and> is_blocking c) (checks e)) (results e))
      in \<lparr>total_checks = length (results e), passed = n_passed, failed = n_failed,
          warnings = n_warnings, skipped = n_skipped, blocking_failures = n_blocking,
          overall_status =
            (if n_failed = 0 then ''PASSED''
             else if n_blocking > 0 then ''BLOCKED'' else ''WARNING''),
          pass_rate = (if results e \<noteq> [] then of_nat n_passed / of_nat (length (results e)) else 0)\<rparr>)"

text \<open>
  The overall status as the specification words it: FAILED when a blocking-flagged check
  failed, WARNING when a failure or a warning exists, PASSED otherwise.
\<close>

definition spec_overall_status :: "ReconciliationEngine \<Rightarrow> string" where
  "spec_overall_status e =
     (if list_ex (\<lambda>r. cr_status r = FAILED \<and>
                      list_ex (\<lambda>c. rc_id c = check_id r \<and> is_blocking c) (checks e)) (results e)
      then ''FAILED''
      else if list_ex (\<lambda>r. cr_status r = FAILED \<or> cr_status r = WARNING) (results e)
      then ''WARNING'' else ''PASSED'')"

section \<open>Identity resolution (modules/identity.py)\<close>

datatype MatchConfidence = EXACT | HIGH | MEDIUM | LOW | NO_MATCH

record MatchResult =
  mr_source_id :: string
  mr_target_id :: string
  mr_confidence :: MatchConfidence
  match_score :: rat
  matched_fields :: "string list"
  mismatched_fields :: "string list"

record GoldenRecord =
  golden_id :: string
  primary_source :: string
  source_ids :: "string \<rightharpoonup> string"
  first_name :: string
  last_name :: string
  date_of_birth :: pyval
  email :: pyval
  state_id :: pyval
  merged_from :: "string list"
  gr_confidence :: rat

definition add_source_id :: "GoldenRecord \<Rightarrow> string \<Rightarrow> string \<Rightarrow> GoldenRecord" where
  "add_source_id g source sid =
     g\<lparr>source_ids := (source_ids g)(source \<mapsto> sid),
       merged_from := (if source \<in> set (merged_from g) then merged_from g
                       else merged_from g @ [source])\<rparr>"

definition golden_key :: "GoldenRecord \<Rightarrow> string" where
  "golden_key g =
     first_name g @ ''|'' @ last_name g @ ''|'' @ py_str (date_of_birth g) @ ''|'' @
     py_str (state_id g)"

definition generate_golden_id :: "GoldenRecord \<Rightarrow> string" where
  "generate_golden_id g = ''GR-'' @ upper (take 12 (md5_hexdigest (golden_key g)))"

text \<open>
  The resolver: \<open>golden_records\<close> is a dictionary whose iteration order is read, hence an
  association list in insertion order. The household graph is not part of this model.
\<close>

record IdentityResolver =
  golden_records :: "(string \<times> GoldenRecord) list"
  source_to_golden :: "string \<rightharpoonup> (string \<rightharpoonup> string)"
  duplicates :: "MatchResult list"

definition new_resolver :: IdentityResolver where
  "new_resolver = \<lparr>golden_records = [], source_to_golden = Map.empty, duplicates = []\<rparr>"

definition normalize_name :: "pyval \<Rightarrow> string" where
  "normalize_name name =
     (if \<not> truthy name then []
      else collapse_spaces (filter (\<lambda>c. is_word c \<or> is_space c) (lower (strip (py_str name)))))"

definition normalize_email :: "pyval \<Rightarrow> string" where
  "normalize_email e = (if \<not> truthy e then [] else lower (strip (py_str e)))"

definition normalize_phone :: "pyval \<Rightarrow> string" where
  "normalize_phone ph = (if \<not> truthy ph then [] else filter is_digit (py_str ph))"

text \<open>\<open>s[-10:]\<close>.\<close>

definition last10 :: "string \<Rightarrow> string" where
  "last10 s = drop (length s - 10) s"

definition confidence_of :: "string list \<Rightarrow> rat \<Rightarrow> MatchConfidence" where
  "confidence_of matched score =
     (if ''state_id'' \<in> set matched then EXACT
      else if score \<ge> 8 / 10 then HIGH
      else if score \<ge> 5 / 10 then MEDIUM
      else if score \<ge> 3 / 10 then LOW
      else NO_MATCH)"

text \<open>
  \<open>IdentityResolver.match_records\<close>. Each of its five rules is a function on the three
  accumulators \<open>(matched_fields, mismatched_fields, score)\<close>, applied in the order of the
  source.
\<close>

type_synonym match_acc = "string list \<times> string list \<times> rat"

fun rule1_state_id :: "pydict \<Rightarrow> pydict \<Rightarrow> match_acc \<Rightarrow> match_acc" where
  "rule1_state_id record1 record2 (matched, mismatched, score) =
     (if truthy (dict_get record1 ''state_id'' PNone) \<and> truthy (dict_get record2 ''state_id'' PNone)
      then
        if strip (py_str (dict_get record1 ''state_id'' PNone)) =
           strip (py_str (dict_get record2 ''state_id'' PNone))
        then (matched @ [''state_id''], mismatched, score + 4 / 10)
        else (matched, mismatched @ [''state_id''], score)
      else (matched, mismatched, score))"

fun rule2_email :: "pydict \<Rightarrow> pydict \<Rightarrow> match_acc \<Rightarrow> match_acc" where
  "rule2_email record1 record2 (matched, mismatched, score) =
     (let email1 = normalize_email (dict_get record1 ''email'' (PStr []));
          email2 = normalize_email (dict_get record2 ''email'' (PStr []))
      in if email1 \<noteq> [] \<and> email2 \<noteq> [] then
           if email1 = email2 then (matched @ [''email''], mismatched, score + 25 / 100)
           else (matched, mismatched @ [''email''], score)
         else (matched, mismatched, score))"

fun rule3_first_name :: "pydict \<Rightarrow> pydict \<Rightarrow> match_acc \<Rightarrow> match_acc" where
  "rule3_first_name record1 record2 (matched, mismatched, score) =
     (let fn1 = normalize_name (dict_get record1 ''first_name'' (PStr []));
          fn2 = normalize_name (dict_get record2 ''first_name'' (PStr []))
      in if fn1 = fn2 \<and> fn1 \<noteq> [] then (matched @ [''first_name''], mismatched, score + 15 / 100)
         else if fn1 \<noteq> [] \<and> fn2 \<noteq> [] then (matched, mismatched @ [''first_name''], score)
         else (matched, mismatched, score))"

fun rule3_last_name :: "pydict \<Rightarrow> pydict \<Rightarrow> match_acc \<Rightarrow> match_acc" where
  "rule3_last_name record1 record2 (matched, mismatched, score) =
     (let ln1 = normalize_name (dict_get record1 ''last_name'' (PStr []));
          ln2 = normalize_name (dict_get record2 ''last_name'' (PStr []))
      in if ln1 = ln2 \<and> ln1 \<noteq> [] then (matched @ [''last_name''], mismatched, score + 15 / 100)
         else if ln1 \<noteq> [] \<and> ln2 \<noteq> [] then (matched, mismatched @ [''last_name''], score)
         else (matched, mismatched, score))"

fun rule4_date_of_birth :: "pydict \<Rightarrow> pydict \<Rightarrow> match_acc \<Rightarrow> match_acc" where
  "rule4_date_of_birth record1 record2 (matched, mismatched, score) =
     (let dob1 = py_or (dict_get record1 ''date_of_birth'' PNone) (dict_get record1 ''dob'' PNone);
          dob2 = py_or (dict_get record2 ''date_of_birth'' PNone) (dict_get record2 ''dob'' PNone)
      in if truthy dob1 \<and> truthy dob2 then
           if py_str dob1 = py_str dob2 then (matched @ [''date_of_birth''], mismatched, score + 15 / 100)
           else (matched, mismatched @ [''date_of_birth''], score)
         else (matched, mismatched, score))"

fun rule5_phone :: "pydict \<Rightarrow> pydict \<Rightarrow> match_acc \<Rightarrow> match_acc" where
  "rule5_phone record1 record2 (matched, mismatched, score) =
     (let phone1 = normalize_phone (dict_get record1 ''phone'' (PStr []));
          phone2 = normalize_phone (dict_get record2 ''phone'' (PStr []))
      in if phone1 \<noteq> [] \<and> phone2 \<noteq> [] \<and> length phone1 \<ge> 10 \<and> length phone2 \<ge> 10 then
           if last10 phone1 = last10 phone2 then (matched @ [''phone''], mismatched, score + 1 / 10)
           else (matched, mismatched, score)
         else (matched, mismatched, score))"

definition match_rules :: "pydict \<Rightarrow> pydict \<Rightarrow> match_acc" where
  "match_rules record1 record2 =
     rule5_phone record1 record2
       (rule4_date_of_birth record1 record2
         (rule3_last_name record1 record2
           (rule3_first_name record1 record2
             (rule2_email record1 record2
               (rule1_state_id record1 record2 ([], [], 0))))))"

definition match_records :: "pydict \<Rightarrow> pydict \<Rightarrow> string \<Rightarrow> string \<Rightarrow> MatchResult" where
  "match_records record1 record2 source1 source2 =
     (case match_rules record1 record2 of
        (matched, mismatched, score) \<Rightarrow>
          \<lparr>mr_source_id = source1 @ '':'' @
             py_str (dict_get record1 ''student_id'' (dict_get record1 ''id'' (PStr ''unknown''))),
           mr_target_id = source2 @ '':'' @
             py_str (dict_get record2 ''student_id'' (dict_get record2 ''id'' (PStr ''unknown''))),
           mr_confidence = confidence_of matched score,
           match_score = score,
           matched_fields = matched,
           mismatched_fields = mismatched\<rparr>)"

definition golden_dict :: "GoldenRecord \<Rightarrow> pydict" where
  "golden_dict g =
     [''first_name'' \<mapsto> PStr (first_name g), ''last_name'' \<mapsto> PStr (last_name g),
      ''email'' \<mapsto> email g, ''state_id'' \<mapsto> state_id g, ''date_of_birth'' \<mapsto> date_of_birth g]"

definition merges_with :: "pydict \<Rightarrow> string \<Rightarrow> GoldenRecord \<Rightarrow> bool" where
  "merges_with record source g =
     (mr_confidence (match_records record (golden_dict g) source ''golden'') \<in> set [EXACT, HIGH])"

text \<open>
  The loop of \<open>resolve_identity\<close> over \<open>self.golden_records.items()\<close>: the first golden
  record that matches takes the source id (the object is changed in place) and its key is
  returned; \<open>None\<close> when the loop ends without a match.
\<close>

fun merge_first ::
  "pydict \<Rightarrow> string \<Rightarrow> string \<Rightarrow> (string \<times> GoldenRecord) list \<Rightarrow>
   (string \<times> (string \<times> GoldenRecord) list) option" where
  "merge_first record source sid [] = None"
| "merge_first record source sid ((gid, g) # rest) =
     (if merges_with record source g then Some (gid, (gid, add_source_id g source sid) # rest)
      else (case merge_first record source sid rest of
              None \<Rightarrow> None
            | Some (k, rest') \<Rightarrow> Some (k, (gid, g) # rest')))"

definition set_source_mapping ::
  "(string \<rightharpoonup> (string \<rightharpoonup> string)) \<Rightarrow> string \<Rightarrow> string \<Rightarrow> string \<Rightarrow> (string \<rightharpoonup> (string \<rightharpoonup> string))" where
  "set_source_mapping m source sid gid =
     m(source \<mapsto> (case m source of None \<Rightarrow> Map.empty | Some per \<Rightarrow> per)(sid \<mapsto> gid))"

definition new_golden :: "pydict \<Rightarrow> string \<Rightarrow> string \<Rightarrow> GoldenRecord" where
  "new_golden record source sid =
     (let golden = add_source_id
            \<lparr>golden_id = [], primary_source = source, source_ids = Map.empty,
             first_name = title (strip (py_str (dict_get record ''first_name'' (PStr [])))),
             last_name = title (strip (py_str (dict_get record ''last_name'' (PStr [])))),
             date_of_birth = dict_get record ''date_of_birth'' PNone,
             email = dict_get record ''email'' PNone,
             state_id = dict_get record ''state_id'' PNone,
             merged_from = [], gr_confidence = 1\<rparr> source sid
      in golden\<lparr>golden_id := generate_golden_id golden\<rparr>)"

text \<open>\<open>IdentityResolver.resolve_identity\<close> returns \<open>(golden_id, is_new_record)\<close>.\<close>

definition resolve_identity ::
  "IdentityResolver \<Rightarrow> pydict \<Rightarrow> string \<Rightarrow> (string \<times> bool) \<times> IdentityResolver" where
  "resolve_identity r record source =
     (let sid = py_str (dict_get record ''student_id'' (dict_get record ''id'' (PStr [])))
      in case (case source_to_golden r source of None \<Rightarrow> None | Some per \<Rightarrow> per sid) of
           Some gid \<Rightarrow> ((gid, False), r)
         | None \<Rightarrow>
             (case merge_first record source sid (golden_records r) of
                Some (gid, goldens) \<Rightarrow>
                  ((gid, False),
                   r\<lparr>golden_records := goldens,
                     source_to_golden := set_source_mapping (source_to_golden r) source sid gid\<rparr>)
              | None \<Rightarrow>
                  let golden = new_golden record source sid
                  in ((golden_id golden, True),
                      r\<lparr>golden_records := AList.update (golden_id golden) golden (golden_records r),
                        source_to_golden :=
                          set_source_mapping (source_to_golden r) source sid (golden_id golden)\<rparr>)))"

section \<open>Enrollment spans (modules/enrollment.py)\<close>

record EnrollmentSpan =
  es_id :: string
  es_student_id :: string
  school_id :: string
  school_name :: string
  grade_level :: int
  start_date :: int
  end_date :: "int option"
  es_status :: string
  entry_reason :: pyval
  exit_reason :: pyval
  es_source_system :: string

text \<open>\<open>self.end_date or date.today()\<close>: a date is always true.\<close>

definition end_or_today :: "int \<Rightarrow> EnrollmentSpan \<Rightarrow> int" where
  "end_or_today today e = (case end_date e of None \<Rightarrow> today | Some d \<Rightarrow> d)"

definition overlaps_with :: "int \<Rightarrow> EnrollmentSpan \<Rightarrow> EnrollmentSpan \<Rightarrow> bool \<times> int" where
  "overlaps_with today self other =
     (if end_date self = None \<and> end_date other = None then (school_id self = school_id other, 0)
      else
        let self_end = end_or_today today self;
            other_end = end_or_today today other
        in if start_date self \<le> other_end \<and> start_date other \<le> self_end then
             let overlap_start = max (start_date self) (start_date other);
                 overlap_end = min self_end other_end
             in (True, overlap_end - overlap_start + 1)
           else (False, 0))"

text \<open>
  One iteration of the loop of \<open>normalize_enrollments\<close> over the sorted spans;
  \<open>last.end_date = enrollment.end_date\<close> changes the last element of \<open>resolved\<close>.
\<close>

definition resolve_step :: "int \<Rightarrow> EnrollmentSpan \<Rightarrow> EnrollmentSpan list \<Rightarrow> EnrollmentSpan list" where
  "resolve_step today enrollment resolved =
     (if resolved = [] then [enrollment]
      else
        let lst = last resolved
        in if fst (overlaps_with today lst enrollment) \<and> school_id lst = school_id enrollment then
             (case end_date enrollment of
                Some e \<Rightarrow>
                  (case end_date lst of
                     None \<Rightarrow> butlast resolved @ [lst\<lparr>end_date := Some e\<rparr>]
                   | Some l \<Rightarrow> if e > l then butlast resolved @ [lst\<lparr>end_date := Some e\<rparr>]
                               else resolved)
              | None \<Rightarrow> resolved)
           else resolved @ [enrollment])"

record EnrollmentProcessor =
  enrollments :: "string \<rightharpoonup> EnrollmentSpan list"

definition normalize_enrollments ::
  "int \<Rightarrow> EnrollmentProcessor \<Rightarrow> string \<Rightarrow> EnrollmentSpan list \<times> EnrollmentProcessor" where
  "normalize_enrollments today p student_id =
     (let spans = (case enrollments p student_id of None \<Rightarrow> [] | Some xs \<Rightarrow> xs)
      in if spans = [] then ([], p)
         else
           let sorted_enrollments = sort_key start_date spans;
               resolved = fold (resolve_step today) sorted_enrollments []
           in (resolved, p\<lparr>enrollments := (enrollments p)(student_id \<mapsto> resolved)\<rparr>))"

text \<open>
  The days a span covers, an open span running to \<open>today\<close>, and the days covered by a
  list of spans.
\<close>

definition span_days :: "int \<Rightarrow> EnrollmentSpan \<Rightarrow> int set" where
  "span_days today e = {start_date e .. end_or_today today e}"

definition covered_days :: "int \<Rightarrow> EnrollmentSpan list \<Rightarrow> int set" where
  "covered_days today es = \<Union> (span_days today ` set es)"

section \<open>Derived notions and example data\<close>

definition period_rec :: "int \<Rightarrow> AttendanceStatus \<Rightarrow> AttendanceRecord" where
  "period_rec n st =
     \<lparr>ar_id = ''r'', ar_student_id = ''S1'', ar_date = 738521, ar_status = st,
      ar_attendance_type = PERIOD, ar_period = Some n, ar_teacher_name = [],
      ar_notes = PNone, ar_source_code = [], ar_source_system = ''default''\<rparr>"

definition day_summary :: "AttendanceRecord list \<Rightarrow> DailyAttendanceSummary" where
  "day_summary rs =
     \<lparr>ds_student_id = ''S1'', ds_date = 738521, periods_present = 0, periods_absent = 0,
      periods_tardy = 0, total_periods = 0, daily_status = PRESENT, period_records = rs\<rparr>"

text \<open>Engines after a run: each result carries the id of the check that produced it.\<close>

definition result_of :: "ReconciliationCheck \<Rightarrow> CheckStatus \<Rightarrow> CheckResult" where
  "result_of c st =
     \<lparr>check_id = rc_id c, check_name = rc_name c, cr_category = rc_category c, cr_status = st,
      source_value = None, target_value = None, cr_threshold = None, actual_value = None\<rparr>"

definition warned_engine :: ReconciliationEngine where
  "warned_engine =
     new_engine\<lparr>results :=
       map (\<lambda>c. result_of c (if rc_category c = COMPLETENESS then WARNING else SKIPPED))
           default_checks\<rparr>"

definition blocked_engine :: ReconciliationEngine where
  "blocked_engine =
     new_engine\<lparr>results :=
       map (\<lambda>c. result_of c (if rc_id c = ''count_students'' then FAILED else SKIPPED))
           default_checks\<rparr>"

definition two_students :: "pydict list" where
  "two_students = [[''student_id'' \<mapsto> PStr ''S1''], [''student_id'' \<mapsto> PStr ''S2'']]"

definition counted_engine :: ReconciliationEngine where
  "counted_engine =
     set_target_data (set_source_data new_engine ''students'' two_students) ''students'' two_students"

text \<open>Two person records with blank state ids, and two that share a state id.\<close>

definition blank_ann :: pydict where
  "blank_ann = [''student_id'' \<mapsto> PStr ''1'', ''state_id'' \<mapsto> PStr [], ''first_name'' \<mapsto> PStr ''Ann'']"

definition blank_bob :: pydict where
  "blank_bob = [''student_id'' \<mapsto> PStr ''2'', ''state_id'' \<mapsto> PStr [], ''first_name'' \<mapsto> PStr ''Bob'']"

definition ann_s1 :: pydict where
  "ann_s1 = [''student_id'' \<mapsto> PStr ''1'', ''state_id'' \<mapsto> PStr ''S1'', ''first_name'' \<mapsto> PStr ''Ann'',
             ''last_name'' \<mapsto> PStr ''Lee'']"

definition zed_s1 :: pydict where
  "zed_s1 = [''student_id'' \<mapsto> PStr ''2'', ''state_id'' \<mapsto> PStr '' S1 '', ''first_name'' \<mapsto> PStr ''Zed'',
             ''last_name'' \<mapsto> PStr ''Lee'']"

text \<open>Attendance records as they arrive, with a blank and with an unknown status code.\<close>

definition blank_status_row :: pydict where
  "blank_status_row = [''StudentID'' \<mapsto> PStr ''S1'', ''Date'' \<mapsto> PStr ''2023-01-09'', ''Status'' \<mapsto> PStr []]"

definition odd_status_row :: pydict where
  "odd_status_row = [''StudentID'' \<mapsto> PStr ''S1'', ''Date'' \<mapsto> PStr ''2023-01-09'', ''Status'' \<mapsto> PStr ''ZZ'']"

text \<open>
  An attendance record without a status key, one whose status is \<open>None\<close>, and the
  processor that has processed \<open>odd_status_row\<close> and so holds one issue.
\<close>

definition missing_status_row :: pydict where
  "missing_status_row = [''StudentID'' \<mapsto> PStr ''S2'', ''Date'' \<mapsto> PStr ''2023-01-09'']"

definition none_status_row :: pydict where
  "none_status_row = [''StudentID'' \<mapsto> PStr ''S3'', ''Date'' \<mapsto> PStr ''2023-01-09'', ''status'' \<mapsto> PNone]"

definition reported_processor :: AttendanceProcessor where
  "reported_processor =
     snd (process_record (\<lambda>v. Some 738529) (\<lambda>d. ''2023-01-09'') 738600
            new_processor odd_status_row ''default'')"

text \<open>The daily status that \<open>build_daily_summary\<close> derives for a student on a date.\<close>

definition day_status :: "AttendanceProcessor \<Rightarrow> string \<Rightarrow> int \<Rightarrow> AttendanceStatus" where
  "day_status p student_id d = daily_status (fst (build_daily_summary p student_id d))"

text \<open>A processor holding two present days of one student.\<close>

definition day_rec :: "int \<Rightarrow> AttendanceStatus \<Rightarrow> AttendanceRecord" where
  "day_rec d st =
     \<lparr>ar_id = ''r'', ar_student_id = ''S1'', ar_date = d, ar_status = st,
      ar_attendance_type = DAILY, ar_period = None, ar_teacher_name = [],
      ar_notes = PNone, ar_source_code = ''P'', ar_source_system = ''default''\<rparr>"

definition attended_processor :: AttendanceProcessor where
  "attended_processor =
     new_processor\<lparr>ap_records := [''S1'' \<mapsto> [day_rec 738529 PRESENT, day_rec 738530 PRESENT]]\<rparr>"

text \<open>
  One student at one school: a closed span from 2023-01-01 to 2023-06-01 (ordinals 738521
  and 738672), an ongoing span from 2023-05-01 (738641), an ongoing span from 2023-01-01
  and a closed span from 2023-03-01 (738580) to 2023-06-01. Today is 2023-12-01 (738855).
\<close>

definition span :: "string \<Rightarrow> int \<Rightarrow> int option \<Rightarrow> EnrollmentSpan" where
  "span i s e =
     \<lparr>es_id = i, es_student_id = ''S1'', school_id = ''SCH1'', school_name = ''North High'',
      grade_level = 9, start_date = s, end_date = e, es_status = ''Active'',
      entry_reason = PNone, exit_reason = PNone, es_source_system = ''default''\<rparr>"

definition ongoing_second :: EnrollmentProcessor where
  "ongoing_second =
     \<lparr>enrollments = [''S1'' \<mapsto> [span ''E1'' 738521 (Some 738672), span ''E2'' 738641 None]]\<rparr>"

definition ongoing_first :: EnrollmentProcessor where
  "ongoing_first =
     \<lparr>enrollments = [''S1'' \<mapsto> [span ''E1'' 738521 None, span ''E2'' 738580 (Some 738672)]]\<rparr>"

text \<open>
  The tuple from which a new golden record takes its id, the key string built from it and
  the id computed from a key.
\<close>

definition identity_tuple :: "pydict \<Rightarrow> string \<times> string \<times> pyval \<times> pyval" where
  "identity_tuple record =
     (title (strip (py_str (dict_get record ''first_name'' (PStr [])))),
      title (strip (py_str (dict_get record ''last_name'' (PStr [])))),
      dict_get record ''date_of_birth'' PNone,
      dict_get record ''state_id'' PNone)"

fun tuple_key :: "string \<times> string \<times> pyval \<times> pyval \<Rightarrow> string" where
  "tuple_key (fname, lname, dob, sid) =
     fname @ ''|'' @ lname @ ''|'' @ py_str dob @ ''|'' @ py_str sid"

definition key_golden_id :: "string \<Rightarrow> string" where
  "key_golden_id k = ''GR-'' @ upper (take 12 (md5_hexdigest k))"

text \<open>A third person record: another first name under the state id of \<open>ann_s1\<close>.\<close>

definition zed_lee :: pydict where
  "zed_lee = [''student_id'' \<mapsto> PStr ''2'', ''state_id'' \<mapsto> PStr ''S1'', ''first_name'' \<mapsto> PStr ''zed'',
              ''last_name'' \<mapsto> PStr ''lee'']"

text \<open>The record of \<open>ann_s1\<close> as another source spells it.\<close>

definition ann_dup :: pydict where
  "ann_dup = [''id'' \<mapsto> PStr ''77'', ''state_id'' \<mapsto> PStr ''S1'', ''first_name'' \<mapsto> PStr ''  ann '',
              ''last_name'' \<mapsto> PStr ''LEE'', ''email'' \<mapsto> PStr ''ann@example.org'']"

text \<open>
  Transcripts for the examples: a course entry with its grade points, attempted credits
  and weighting flag. \<open>honors_transcript\<close> holds one weighted course; the entries of
  \<open>rounded_transcript\<close> are 4.0 with 0.5 credits, 4.0 with 3 credits and 3.3 with 0.5
  credits, the last grade being the double written 3.3.
\<close>

definition course :: "rat \<Rightarrow> rat \<Rightarrow> bool \<Rightarrow> TranscriptEntry" where
  "course points credits weighted =
     \<lparr>te_course_code = ''C1'', te_course_name = ''Course'', te_term = ''T1'',
      te_school_year = ''2023'', letter_grade = [], credits_attempted = credits,
      credits_earned = credits, grade_points = points, is_weighted = weighted\<rparr>"

definition transcript_of :: "TranscriptEntry list \<Rightarrow> StudentTranscript" where
  "transcript_of es =
     \<lparr>st_student_id = ''S1'', entries = es, cumulative_gpa = 0, weighted_gpa = 0,
      total_credits_attempted = 0, total_credits_earned = 0\<rparr>"

definition honors_transcript :: StudentTranscript where
  "honors_transcript = transcript_of [course 3 1 True, course 2 0 True]"

definition rounded_transcript :: StudentTranscript where
  "rounded_transcript =
     transcript_of [course 4 (1 / 2) False, course 4 3 False, course (float_of (33 / 10)) (1 / 2) False]"

text \<open>
  The source id under which \<open>resolve_identity\<close> files a record, and the golden id that
  the resolver has cached for a source id of a source.
\<close>

definition source_id_of :: "pydict \<Rightarrow> string" where
  "source_id_of record = py_str (dict_get record ''student_id'' (dict_get record ''id'' (PStr [])))"

definition cached_id :: "IdentityResolver \<Rightarrow> string \<Rightarrow> string \<Rightarrow> string option" where
  "cached_id r source sid = (case source_to_golden r source of None \<Rightarrow> None | Some per \<Rightarrow> per sid)"

text \<open>
  A person with another state id, and the resolver that has resolved \<open>ann_s1\<close> and then
  this person: it holds two golden records.
\<close>

definition bob_s2 :: pydict where
  "bob_s2 = [''student_id'' \<mapsto> PStr ''3'', ''state_id'' \<mapsto> PStr ''S2'', ''first_name'' \<mapsto> PStr ''bob'',
             ''last_name'' \<mapsto> PStr ''ray'']"

definition two_goldens :: IdentityResolver where
  "two_goldens =
     snd (resolve_identity (snd (resolve_identity new_resolver ann_s1 ''sis'')) bob_s2 ''sis'')"

section \<open>Daily status\<close>

lemma half_compare: "((of_nat a :: rat) > of_nat t / 2) = (2 * a > t)"
proof -
  have "((of_nat a :: rat) > of_nat t / 2) = ((of_nat t :: rat) < of_nat (2 * a))"
    by (simp add: field_simps)
  also have "\<dots> = (t < 2 * a)"
    by (simp only: of_nat_less_iff)
  finally show ?thesis .
qed

text \<open>
  C6. For a non-empty list of period records, the daily status is Absent when the number
  of absent periods (Absent, Excused or Unexcused) equals the number of periods; else
  HalfDay when the absent periods are more than half of the periods; else Tardy when some
  period is tardy and none absent; else Present.
\<close>

theorem C6_daily_status_priority:
  assumes "period_records s \<noteq> []"
  shows "daily_status (calculate_daily_status s) =
     (let total = length (period_records s);
          absent = length (filter is_absent (period_records s));
          tardy = length (filter (\<lambda>r. ar_status r = TARDY) (period_records s))
      in if absent = total then ABSENT
         else if 2 * absent > total then HALF_DAY
         else if tardy > 0 \<and> absent = 0 then TARDY
         else PRESENT)"
  using assms by (simp add: calculate_daily_status_def Let_def half_compare)

theorem C6_daily_status_witness:
  "period_records (day_summary [period_rec 1 ABSENT, period_rec 2 ABSENT, period_rec 3 PRESENT]) \<noteq> []
   \<and> daily_status (calculate_daily_status
        (day_summary [period_rec 1 ABSENT, period_rec 2 ABSENT, period_rec 3 PRESENT])) = HALF_DAY
   \<and> daily_status (calculate_daily_status
        (day_summary [period_rec 1 ABSENT, period_rec 2 EXCUSED, period_rec 3 ABSENT])) = ABSENT"
  using C6_daily_status_priority
          [of "day_summary [period_rec 1 ABSENT, period_rec 2 ABSENT, period_rec 3 PRESENT]"]
        C6_daily_status_priority
          [of "day_summary [period_rec 1 ABSENT, period_rec 2 EXCUSED, period_rec 3 ABSENT]"]
  by (simp add: day_summary_def period_rec_def is_absent_def)

section \<open>Count checks\<close>

text \<open>
  C9. A count check whose source collection is empty has status Skipped; otherwise its
  status is Passed exactly when target count / source count reaches the threshold of the
  check, and Failed when it is not Passed.
\<close>

theorem C9_count_check:
  "(data_count (source_data e) t = 0 \<longrightarrow> cr_status (run_count_check e t c) = SKIPPED) \<and>
   (data_count (source_data e) t > 0 \<longrightarrow>
      (cr_status (run_count_check e t c) = PASSED \<longleftrightarrow>
         (of_nat (data_count (target_data e) t) :: rat) / of_nat (data_count (source_data e) t)
           \<ge> threshold c) \<and>
      (cr_status (run_count_check e t c) \<noteq> PASSED \<longrightarrow> cr_status (run_count_check e t c) = FAILED))"
  by (simp add: run_count_check_def Let_def)

theorem C9_count_check_witness:
  "data_count (source_data new_engine) ''students'' = 0 \<and>
   cr_status (run_count_check new_engine ''students'' (hd default_checks)) = SKIPPED \<and>
   data_count (source_data counted_engine) ''students'' > 0 \<and>
   cr_status (run_count_check counted_engine ''students'' (hd default_checks)) = PASSED"
  using C9_count_check [of new_engine "''students''" "hd default_checks"]
        C9_count_check [of counted_engine "''students''" "hd default_checks"]
  by (simp add: new_engine_def counted_engine_def set_source_data_def set_target_data_def
      data_count_def two_students_def default_checks_def mk_check_def)

section \<open>Summary of a run\<close>

text \<open>
  C2 as worded fails twice. After a run in which only completeness checks warn,
  the summary says PASSED where the claim says WARNING; after a run in which the blocking
  student count check fails, the summary says BLOCKED where the claim says FAILED.
\<close>

theorem C2_counterexample:
  "overall_status (get_summary warned_engine) = ''PASSED'' \<and>
   spec_overall_status warned_engine = ''WARNING'' \<and>
   overall_status (get_summary blocked_engine) = ''BLOCKED'' \<and>
   spec_overall_status blocked_engine = ''FAILED''"
  by (simp add: get_summary_def spec_overall_status_def warned_engine_def blocked_engine_def
      new_engine_def default_checks_def mk_check_def result_of_def)

text \<open>
  C2 (amended). The overall status is PASSED when no result has status Failed (warnings
  do not count), BLOCKED when some Failed result belongs to a blocking-flagged check, and
  WARNING when some result Failed but none of a blocking check. The pass rate is the number
  of Passed results divided by the number of results, and 0 when there are no results.
\<close>

theorem C2_summary_status:
  "overall_status (get_summary e) =
     (if \<not> list_ex (\<lambda>r. cr_status r = FAILED) (results e) then ''PASSED''
      else if list_ex (\<lambda>r. cr_status r = FAILED \<and>
                          list_ex (\<lambda>c. rc_id c = check_id r \<and> is_blocking c) (checks e)) (results e)
      then ''BLOCKED'' else ''WARNING'') \<and>
   pass_rate (get_summary e) =
     (if results e = [] then 0
      else of_nat (length (filter (\<lambda>r. cr_status r = PASSED) (results e))) /
           of_nat (length (results e)))"
  by (auto simp add: get_summary_def Let_def list_ex_iff filter_empty_conv)

section \<open>Rounding to doubles\<close>

text \<open>Rounding to a double is monotone at 0 and at every integer below \<open>2 ^ 53\<close>.\<close>

lemma round_half_even_nonneg: "0 \<le> s \<Longrightarrow> 0 \<le> round_half_even s"
  by (simp add: round_half_even_def Let_def)

lemma round_half_even_le:
  assumes "s \<le> of_int M"
  shows "round_half_even s \<le> M"
proof -
  have f: "\<lfloor>s\<rfloor> \<le> M"
    using assms by (simp add: floor_le_iff)
  have up: "\<lfloor>s\<rfloor> + 1 \<le> M" if "s \<noteq> of_int \<lfloor>s\<rfloor>"
  proof -
    have "s \<noteq> of_int M"
      using that by auto
    then have "s < of_int M" using assms by simp
    then have "\<lfloor>s\<rfloor> < M" by (simp add: floor_less_iff)
    then show ?thesis by simp
  qed
  show ?thesis
    using f up by (auto simp add: round_half_even_def Let_def)
qed

lemma floor_log2_le:
  assumes "0 < x" and "x \<le> of_int N" and "N < 2 ^ 53"
  shows "floor_log2 x \<le> 52"
proof (cases "1 \<le> x")
  case True
  have "\<lfloor>x\<rfloor> \<le> N"
    using assms(2) by (simp add: floor_le_iff)
  then have "\<lfloor>x\<rfloor> < 2 ^ 53"
    using assms(3) by linarith
  then have "bitlen \<lfloor>x\<rfloor> \<le> 53"
    using bitlen_le_iff_power [of "\<lfloor>x\<rfloor>" 53] by (simp only: nat_numeral) simp
  then show ?thesis using True by (simp add: floor_log2_def)
next
  case False
  have "0 \<le> bitlen (\<lceil>1 / x\<rceil> - 1)" by (rule bitlen_nonneg)
  then show ?thesis using False by (simp add: floor_log2_def)
qed

lemma float_of_range:
  assumes "0 \<le> x" and "x \<le> of_int N" and "N < 2 ^ 53"
  shows "0 \<le> float_of x \<and> float_of x \<le> of_int N"
proof (cases "x = 0")
  case True
  then show ?thesis using assms by (simp add: float_of_def)
next
  case False
  then have pos: "0 < x" using assms(1) by simp
  define e where "e = max (floor_log2 x - 52) (- 1074)"
  define k where "k = nat (- e)"
  define m where "m = round_half_even (x / pow2 e)"
  have e0: "e \<le> 0"
    using floor_log2_le [OF pos assms(2) assms(3)] by (simp add: e_def)
  have p: "pow2 e = 1 / 2 ^ k"
    using e0 by (cases "e = 0") (simp_all add: pow2_def k_def)
  have fl: "float_of x = of_int m / 2 ^ k"
    using pos by (simp add: float_of_def Let_def e_def [symmetric] m_def p)
  have s: "x / pow2 e = x * 2 ^ k"
    by (simp add: p)
  have "x * 2 ^ k \<le> of_int N * 2 ^ k"
    using assms(2) by simp
  then have "x / pow2 e \<le> of_int (N * 2 ^ k)"
    by (simp add: s)
  then have mle: "m \<le> N * 2 ^ k"
    unfolding m_def by (rule round_half_even_le)
  have m0: "0 \<le> m"
    unfolding m_def using pos by (intro round_half_even_nonneg) (simp add: s)
  have "(of_int m :: rat) \<le> of_int (N * 2 ^ k)"
    using mle by (simp only: of_int_le_iff)
  then have "(of_int m :: rat) / 2 ^ k \<le> of_int N"
    by (simp add: divide_le_eq)
  moreover have "0 \<le> (of_int m :: rat) / 2 ^ k"
    using m0 by simp
  ultimately show ?thesis by (simp add: fl)
qed

lemma bitlen_numeral: "bitlen (numeral k) = bitlen (numeral k div 2) + 1"
  using compute_bitlen [of "numeral k"] by simp

lemma bitlen_one: "bitlen 1 = 1"
  using compute_bitlen [of 1] by simp

lemma floor_rat_numeral: "\<lfloor>(numeral a :: rat) / numeral b\<rfloor> = numeral a div numeral b"
  by (metis floor_divide_of_int_eq of_int_numeral)

lemma ceiling_rat_numeral: "\<lceil>(numeral a :: rat) / numeral b\<rceil> = - (- numeral a div numeral b)"
  unfolding ceiling_def by (metis floor_divide_of_int_eq of_int_numeral of_int_minus minus_divide_left)

lemmas float_eval = float_of_def floor_log2_def bitlen_numeral bitlen_one pow2_def
  round_half_even_def Let_def floor_rat_numeral ceiling_rat_numeral

lemma float_of_1: "float_of 1 = 1"
  by (simp add: float_eval)

lemma float_of_100: "float_of 100 = 100"
  by (simp add: float_eval)

section \<open>Grade point averages\<close>

lemma fold_gpa_step_filter:
  "fold gpa_step (filter (\<lambda>e. credits_attempted e \<noteq> 0) es) acc = fold gpa_step es acc"
proof (induction es arbitrary: acc)
  case Nil
  show ?case by simp
next
  case (Cons e es)
  obtain a b c where acc: "acc = (a, b, c)" by (cases acc) auto
  show ?case using Cons.IH by (simp add: acc)
qed

text \<open>
  The three accumulators of the loop are left folds of the float sum over the entries
  with positive credits.
\<close>

lemma fold_gpa_step_sums:
  "fold gpa_step es (a, b, c) =
     (foldl fadd a (map (\<lambda>e. fmul (grade_points e) (credits_attempted e))
                     (filter (\<lambda>e. 0 < credits_attempted e) es)),
      foldl fadd b (map (\<lambda>e. fmul (fadd (grade_points e) (if is_weighted e then 1 / 2 else 0))
                                 (credits_attempted e))
                     (filter (\<lambda>e. 0 < credits_attempted e) es)),
      foldl fadd c (map credits_attempted (filter (\<lambda>e. 0 < credits_attempted e) es)))"
  by (induction es arbitrary: a b c) (simp_all add: Let_def)

lemma calculate_gpa_sums:
  "fst (calculate_gpa t) =
     (let counted = filter (\<lambda>e. 0 < credits_attempted e) (entries t);
          total_credits = foldl fadd 0 (map credits_attempted counted);
          quality_points =
            foldl fadd 0 (map (\<lambda>e. fmul (grade_points e) (credits_attempted e)) counted);
          weighted_points =
            foldl fadd 0 (map (\<lambda>e. fmul (fadd (grade_points e) (if is_weighted e then 1 / 2 else 0))
                                       (credits_attempted e)) counted)
      in if 0 < total_credits
         then (fround 3 (fdiv quality_points total_credits),
               fround 3 (fdiv weighted_points total_credits))
         else (0, 0))"
proof (cases "entries t = []")
  case True
  then show ?thesis by (simp add: calculate_gpa_def)
next
  case False
  then show ?thesis
    by (simp add: calculate_gpa_def fold_gpa_step_sums Let_def)
qed

lemma unweighted_counted:
  "filter (\<lambda>e. 0 < credits_attempted e) (map (\<lambda>e. e\<lparr>is_weighted := False\<rparr>) es) =
     map (\<lambda>e. e\<lparr>is_weighted := False\<rparr>) (filter (\<lambda>e. 0 < credits_attempted e) es)"
  by (induction es) simp_all

text \<open>
  The float sums are not the exact sums: the entries 4.0 with 0.5 credits, 4.0 with 3
  credits and 3.3 with 0.5 credits have the exact average 3.9125, the float quotient is
  just above it, and both averages are the double written 3.913.
\<close>

lemma gpa_rounded_transcript:
  "fst (calculate_gpa rounded_transcript) = (float_of (3913 / 1000), float_of (3913 / 1000)) \<and>
   py_round 3 ((4 * (1 / 2) + 4 * 3 + 33 / 10 * (1 / 2)) / (1 / 2 + 3 + 1 / 2)) = 3912 / 1000"
proof -
  have g: "float_of (33 / 10) = 3715469692580659 / 1125899906842624"
    by (simp add: float_eval)
  have q1: "fadd 0 (fmul 4 (1 / 2)) = 2"
    by (simp add: fadd_def fmul_def float_eval)
  have q2: "fadd 2 (fmul 4 3) = 14"
    by (simp add: fadd_def fmul_def float_eval)
  have q3: "fadd 14 (fmul (3715469692580659 / 1125899906842624) (1 / 2)) =
              8810166771043533 / 562949953421312"
    by (simp add: fadd_def fmul_def float_eval)
  have b1: "fadd 4 0 = 4"
    by (simp add: fadd_def float_eval)
  have b3: "fadd (3715469692580659 / 1125899906842624) 0 = 3715469692580659 / 1125899906842624"
    by (simp add: fadd_def float_eval)
  have c1: "fadd 0 (1 / 2) = 1 / 2"
    by (simp add: fadd_def float_eval)
  have c2: "fadd (1 / 2) 3 = 7 / 2"
    by (simp add: fadd_def float_eval)
  have c3: "fadd (7 / 2) (1 / 2) = 4"
    by (simp add: fadd_def float_eval)
  have d: "fdiv (8810166771043533 / 562949953421312) 4 = 8810166771043533 / 2251799813685248"
    by (simp add: fdiv_def float_eval)
  have r: "py_round 3 (8810166771043533 / 2251799813685248) = 3913 / 1000"
    by (simp add: py_round_def float_eval)
  have "fst (calculate_gpa rounded_transcript) = (float_of (3913 / 1000), float_of (3913 / 1000))"
    by (simp add: calculate_gpa_sums rounded_transcript_def transcript_of_def course_def g
        q1 q2 q3 b1 b3 c1 c2 c3 d r fround_def Let_def)
  moreover have "py_round 3 ((4 * (1 / 2) + 4 * 3 + 33 / 10 * (1 / 2)) / (1 / 2 + 3 + 1 / 2)) =
                   3912 / 1000"
    by (simp add: py_round_def float_eval)
  ultimately show ?thesis by blast
qed

text \<open>
  C5. A transcript without entries has GPA \<open>(0, 0)\<close>. Removing the entries with zero
  attempted credits does not change the returned pair. The pair is computed from the
  entries with positive credits alone: with their credits summed to \<open>total_credits\<close>,
  the cumulative GPA is the sum of \<open>grade_points * credits\<close> divided by \<open>total_credits\<close>
  and the weighted GPA is the sum of \<open>(grade_points + bonus) * credits\<close> divided by
  \<open>total_credits\<close>, bonus 0.5 for a weighted entry and 0 otherwise, each rounded to 3
  decimals, and \<open>(0, 0)\<close> when no credit is counted; every operation is a float
  operation, in the order of the entries. The cumulative GPA is the same when no entry is
  flagged as weighted, and the entries, so their stored grade points, are unchanged by
  the calculation. One weighted course with 3.0 grade points and 1 credit, next to a
  course without credits, gives \<open>(3.0, 3.5)\<close>.
\<close>

theorem C5_gpa:
  "fst (calculate_gpa (t\<lparr>entries := []\<rparr>)) = (0, 0) \<and>
   fst (calculate_gpa (t\<lparr>entries := filter (\<lambda>e. credits_attempted e \<noteq> 0) (entries t)\<rparr>)) =
     fst (calculate_gpa t) \<and>
   fst (calculate_gpa t) =
     (let counted = filter (\<lambda>e. 0 < credits_attempted e) (entries t);
          total_credits = foldl fadd 0 (map credits_attempted counted);
          quality_points =
            foldl fadd 0 (map (\<lambda>e. fmul (grade_points e) (credits_attempted e)) counted);
          weighted_points =
            foldl fadd 0 (map (\<lambda>e. fmul (fadd (grade_points e) (if is_weighted e then 1 / 2 else 0))
                                       (credits_attempted e)) counted)
      in if 0 < total_credits
         then (fround 3 (fdiv quality_points total_credits),
               fround 3 (fdiv weighted_points total_credits))
         else (0, 0)) \<and>
   fst (fst (calculate_gpa (t\<lparr>entries := map (\<lambda>e. e\<lparr>is_weighted := False\<rparr>) (entries t)\<rparr>))) =
     fst (fst (calculate_gpa t)) \<and>
   entries (snd (calculate_gpa t)) = entries t \<and>
   map grade_points (entries (snd (calculate_gpa t))) = map grade_points (entries t) \<and>
   fst (calculate_gpa honors_transcript) = (3, 7 / 2)"
proof (intro conjI)
  show "fst (calculate_gpa (t\<lparr>entries := []\<rparr>)) = (0, 0)"
    by (simp add: calculate_gpa_def)
  show "fst (calculate_gpa (t\<lparr>entries := filter (\<lambda>e. credits_attempted e \<noteq> 0) (entries t)\<rparr>)) =
     fst (calculate_gpa t)"
  proof -
    have "filter (\<lambda>e. 0 < credits_attempted e) (filter (\<lambda>e. credits_attempted e \<noteq> 0) (entries t)) =
            filter (\<lambda>e. 0 < credits_attempted e) (entries t)"
      by (induction "entries t") (auto intro: filter_cong)
    then show ?thesis
      by (simp only: calculate_gpa_sums [of "t\<lparr>entries := filter (\<lambda>e. credits_attempted e \<noteq> 0) (entries t)\<rparr>"]
          calculate_gpa_sums [of t]) simp
  qed
  show "fst (calculate_gpa t) =
     (let counted = filter (\<lambda>e. 0 < credits_attempted e) (entries t);
          total_credits = foldl fadd 0 (map credits_attempted counted);
          quality_points =
            foldl fadd 0 (map (\<lambda>e. fmul (grade_points e) (credits_attempted e)) counted);
          weighted_points =
            foldl fadd 0 (map (\<lambda>e. fmul (fadd (grade_points e) (if is_weighted e then 1 / 2 else 0))
                                       (credits_attempted e)) counted)
      in if 0 < total_credits
         then (fround 3 (fdiv quality_points total_credits),
               fround 3 (fdiv weighted_points total_credits))
         else (0, 0))"
    by (rule calculate_gpa_sums)
  show "fst (fst (calculate_gpa (t\<lparr>entries := map (\<lambda>e. e\<lparr>is_weighted := False\<rparr>) (entries t)\<rparr>))) =
     fst (fst (calculate_gpa t))"
    by (simp add: calculate_gpa_sums unweighted_counted Let_def comp_def)
  show "entries (snd (calculate_gpa t)) = entries t"
    by (simp add: calculate_gpa_def Let_def split: prod.splits)
  then show "map grade_points (entries (snd (calculate_gpa t))) = map grade_points (entries t)"
    by simp
  show "fst (calculate_gpa honors_transcript) = (3, 7 / 2)"
  proof -
    have q: "fadd 0 (fmul 3 1) = 3"
      by (simp add: fadd_def fmul_def float_eval)
    have w: "fadd 0 (fmul (fadd 3 (1 / 2)) 1) = 7 / 2"
      by (simp add: fadd_def fmul_def float_eval)
    have c: "fadd 0 1 = 1"
      by (simp add: fadd_def float_eval)
    have d: "fround 3 (fdiv 3 1) = 3" "fround 3 (fdiv (7 / 2) 1) = 7 / 2"
      by (simp_all add: fround_def fdiv_def py_round_def float_eval)
    show ?thesis
      by (simp add: calculate_gpa_sums honors_transcript_def transcript_of_def course_def
          q w c d Let_def)
  qed
qed

section \<open>Matching two records\<close>

lemma rule1_state_id_sym: "rule1_state_id a b acc = rule1_state_id b a acc"
  by (cases acc) auto

lemma rule2_email_sym: "rule2_email a b acc = rule2_email b a acc"
  by (cases acc) (auto simp add: Let_def)

lemma rule3_first_name_sym: "rule3_first_name a b acc = rule3_first_name b a acc"
  by (cases acc) (auto simp add: Let_def)

lemma rule3_last_name_sym: "rule3_last_name a b acc = rule3_last_name b a acc"
  by (cases acc) (auto simp add: Let_def)

lemma rule4_date_of_birth_sym: "rule4_date_of_birth a b acc = rule4_date_of_birth b a acc"
  by (cases acc) (auto simp add: Let_def)

lemma rule5_phone_sym: "rule5_phone a b acc = rule5_phone b a acc"
  by (cases acc) (auto simp add: Let_def)

lemma match_rules_sym: "match_rules a b = match_rules b a"
  by (simp add: match_rules_def rule1_state_id_sym [of a b] rule2_email_sym [of a b]
      rule3_first_name_sym [of a b] rule3_last_name_sym [of a b]
      rule4_date_of_birth_sym [of a b] rule5_phone_sym [of a b])

lemma rule2_email_keeps: "x \<in> set (fst acc) \<Longrightarrow> x \<in> set (fst (rule2_email a b acc))"
  by (cases acc) (auto simp add: Let_def)

lemma rule3_first_name_keeps: "x \<in> set (fst acc) \<Longrightarrow> x \<in> set (fst (rule3_first_name a b acc))"
  by (cases acc) (auto simp add: Let_def)

lemma rule3_last_name_keeps: "x \<in> set (fst acc) \<Longrightarrow> x \<in> set (fst (rule3_last_name a b acc))"
  by (cases acc) (auto simp add: Let_def)

lemma rule4_date_of_birth_keeps:
  "x \<in> set (fst acc) \<Longrightarrow> x \<in> set (fst (rule4_date_of_birth a b acc))"
  by (cases acc) (auto simp add: Let_def)

lemma rule5_phone_keeps: "x \<in> set (fst acc) \<Longrightarrow> x \<in> set (fst (rule5_phone a b acc))"
  by (cases acc) (auto simp add: Let_def)

lemma state_id_matched:
  assumes "truthy (dict_get a ''state_id'' PNone)" and "truthy (dict_get b ''state_id'' PNone)"
    and "strip (py_str (dict_get a ''state_id'' PNone)) = strip (py_str (dict_get b ''state_id'' PNone))"
  shows "''state_id'' \<in> set (fst (match_rules a b))"
proof -
  have "''state_id'' \<in> set (fst (rule1_state_id a b ([], [], 0)))"
    using assms by simp
  then show ?thesis
    unfolding match_rules_def
    by (intro rule5_phone_keeps rule4_date_of_birth_keeps rule3_last_name_keeps
        rule3_first_name_keeps rule2_email_keeps)
qed

lemma match_records_fields:
  "matched_fields (match_records a b s1 s2) = fst (match_rules a b) \<and>
   mismatched_fields (match_records a b s1 s2) = fst (snd (match_rules a b)) \<and>
   match_score (match_records a b s1 s2) = snd (snd (match_rules a b)) \<and>
   mr_confidence (match_records a b s1 s2) =
     confidence_of (fst (match_rules a b)) (snd (snd (match_rules a b)))"
  by (simp add: match_records_def split: prod.splits)


text \<open>
  C10. Swapping the two records (and their source labels) leaves the score, the confidence
  and the matched and mismatched fields unchanged, and swaps the two id labels.
\<close>

theorem C10_match_symmetric:
  "match_score (match_records a b s1 s2) = match_score (match_records b a s2 s1) \<and>
   mr_confidence (match_records a b s1 s2) = mr_confidence (match_records b a s2 s1) \<and>
   matched_fields (match_records a b s1 s2) = matched_fields (match_records b a s2 s1) \<and>
   mismatched_fields (match_records a b s1 s2) = mismatched_fields (match_records b a s2 s1) \<and>
   mr_source_id (match_records a b s1 s2) = mr_target_id (match_records b a s2 s1) \<and>
   mr_target_id (match_records a b s1 s2) = mr_source_id (match_records b a s2 s1)"
  by (simp add: match_records_def match_rules_sym [of a b] split: prod.splits)

text \<open>
  C3 as worded fails on two records whose state ids are both blank: the ids are identical
  after normalization, and the result is not Exact.
\<close>

theorem C3_counterexample:
  "strip (py_str (dict_get blank_ann ''state_id'' PNone)) =
     strip (py_str (dict_get blank_bob ''state_id'' PNone)) \<and>
   mr_confidence (match_records blank_ann blank_bob ''source1'' ''source2'') = NO_MATCH"
  by (simp add: match_records_def match_rules_def Let_def blank_ann_def blank_bob_def dict_get_def strip_def
      normalize_email_def normalize_name_def normalize_phone_def py_or_def confidence_of_def
      lower_def collapse_spaces_def is_word_def is_space_def is_upper_def is_lower_def
      is_digit_def lower_char_def)

text \<open>
  C3 (amended). When both records carry a state id that is true in Python's sense (not
  None, not empty, not 0) and the two ids are equal after \<open>str\<close> and \<open>strip\<close>, the
  confidence is Exact. In general the confidence is Exact when \<open>state_id\<close> is among the
  matched fields, else High from a score of 0.8, Medium from 0.5, Low from 0.3, else
  NoMatch.
\<close>

theorem C3_exact_on_state_id:
  "(truthy (dict_get a ''state_id'' PNone) \<and> truthy (dict_get b ''state_id'' PNone) \<and>
    strip (py_str (dict_get a ''state_id'' PNone)) = strip (py_str (dict_get b ''state_id'' PNone))
    \<longrightarrow> mr_confidence (match_records a b s1 s2) = EXACT) \<and>
   mr_confidence (match_records a b s1 s2) =
     (if ''state_id'' \<in> set (matched_fields (match_records a b s1 s2)) then EXACT
      else if match_score (match_records a b s1 s2) \<ge> 8 / 10 then HIGH
      else if match_score (match_records a b s1 s2) \<ge> 5 / 10 then MEDIUM
      else if match_score (match_records a b s1 s2) \<ge> 3 / 10 then LOW
      else NO_MATCH)"
  using state_id_matched [of a b]
  by (simp add: match_records_fields confidence_of_def)

theorem C3_exact_on_state_id_witness:
  "truthy (dict_get ann_s1 ''state_id'' PNone) \<and> truthy (dict_get zed_s1 ''state_id'' PNone) \<and>
   strip (py_str (dict_get ann_s1 ''state_id'' PNone)) = strip (py_str (dict_get zed_s1 ''state_id'' PNone)) \<and>
   mr_confidence (match_records ann_s1 zed_s1 ''source1'' ''source2'') = EXACT"
  using C3_exact_on_state_id [of ann_s1 zed_s1 "''source1''" "''source2''"]
  by (simp add: ann_s1_def zed_s1_def dict_get_def strip_def is_space_def)

section \<open>Unmapped attendance codes\<close>

text \<open>
  C8 as worded fails on a record whose status is blank: the blank code is in neither
  table, \<open>map_code\<close> answers Absent, and \<open>process_record\<close> records no issue.
\<close>

theorem C8_counterexample:
  "custom_mappings (code_mapper new_processor) (strip (lower [])) = None \<and>
   map_of CODE_MAPPINGS (strip (lower [])) = None \<and>
   fst (map_code (code_mapper new_processor) []) = (ABSENT, False) \<and>
   ap_issues (snd (process_record (\<lambda>v. Some 738529) (\<lambda>d. ''2023-01-09'') 738600
                     new_processor blank_status_row ''default'')) = []"
  by (simp add: process_record_def map_code_def new_processor_def new_mapper_def
      blank_status_row_def dict_get_def strip_def lower_def CODE_MAPPINGS_def Let_def)

lemma none_code: "strip ''None'' = ''None'' \<and> strip (lower ''None'') = ''none'' \<and>
    map_of CODE_MAPPINGS ''none'' = None"
  by (simp add: strip_def lower_def lower_char_def is_space_def CODE_MAPPINGS_def)

text \<open>
  C8 (amended). A code whose normal form (lowered, stripped) is in neither the custom
  mappings nor the standard table is mapped to Absent and reported as not mapped. The
  code of a record is the stripped text of its status, the empty text when the record
  has no status key. When that code is such a code and is not empty, \<open>process_record\<close>
  returns a record with status Absent and appends one \<open>unmapped_code\<close> issue carrying
  the student id, the date and the code; a status that is present as \<open>None\<close> has the
  code \<open>None\<close> and is reported in this way. When the code is empty, \<open>process_record\<close>
  returns a record with status Absent and leaves the issues as they were. No step of
  \<open>process_record\<close> can raise.
\<close>

theorem C8_unmapped_code:
  "(custom_mappings m (strip (lower code)) = None \<and> map_of CODE_MAPPINGS (strip (lower code)) = None
    \<longrightarrow> fst (map_code m code) = (ABSENT, False)) \<and>
   (let raw_code = strip (py_str (dict_get record ''Status'' (dict_get record ''status'' (PStr []))))
    in raw_code \<noteq> [] \<and> custom_mappings (code_mapper p) (strip (lower raw_code)) = None \<and>
       map_of CODE_MAPPINGS (strip (lower raw_code)) = None
       \<longrightarrow> ar_status (fst (process_record parse show_date today p record source)) = ABSENT \<and>
           ap_issues (snd (process_record parse show_date today p record source)) =
             ap_issues p @
               [Unmapped_code
                  (py_str (dict_get record ''StudentID'' (dict_get record ''student_id'' (PStr []))))
                  (parse (dict_get record ''Date'' (dict_get record ''date'' (PStr []))))
                  raw_code]) \<and>
   (dict_get record ''Status'' (dict_get record ''status'' (PStr [])) = PNone \<and>
    custom_mappings (code_mapper p) ''none'' = None
    \<longrightarrow> ar_status (fst (process_record parse show_date today p record source)) = ABSENT \<and>
        ap_issues (snd (process_record parse show_date today p record source)) =
          ap_issues p @
            [Unmapped_code
               (py_str (dict_get record ''StudentID'' (dict_get record ''student_id'' (PStr []))))
               (parse (dict_get record ''Date'' (dict_get record ''date'' (PStr []))))
               ''None'']) \<and>
   (strip (py_str (dict_get record ''Status'' (dict_get record ''status'' (PStr [])))) = []
    \<longrightarrow> ar_status (fst (process_record parse show_date today p record source)) = ABSENT \<and>
        ap_issues (snd (process_record parse show_date today p record source)) = ap_issues p) \<and>
   (record ''Status'' = None \<and> record ''status'' = None
    \<longrightarrow> strip (py_str (dict_get record ''Status'' (dict_get record ''status'' (PStr [])))) = [])"
proof (intro conjI)
  show "custom_mappings m (strip (lower code)) = None \<and> map_of CODE_MAPPINGS (strip (lower code)) = None
    \<longrightarrow> fst (map_code m code) = (ABSENT, False)"
    by (simp add: map_code_def Let_def)
  show "let raw_code = strip (py_str (dict_get record ''Status'' (dict_get record ''status'' (PStr []))))
    in raw_code \<noteq> [] \<and> custom_mappings (code_mapper p) (strip (lower raw_code)) = None \<and>
       map_of CODE_MAPPINGS (strip (lower raw_code)) = None
       \<longrightarrow> ar_status (fst (process_record parse show_date today p record source)) = ABSENT \<and>
           ap_issues (snd (process_record parse show_date today p record source)) =
             ap_issues p @
               [Unmapped_code
                  (py_str (dict_get record ''StudentID'' (dict_get record ''student_id'' (PStr []))))
                  (parse (dict_get record ''Date'' (dict_get record ''date'' (PStr []))))
                  raw_code]"
    by (simp add: process_record_def map_code_def Let_def split: prod.splits)
  show "dict_get record ''Status'' (dict_get record ''status'' (PStr [])) = PNone \<and>
    custom_mappings (code_mapper p) ''none'' = None
    \<longrightarrow> ar_status (fst (process_record parse show_date today p record source)) = ABSENT \<and>
        ap_issues (snd (process_record parse show_date today p record source)) =
          ap_issues p @
            [Unmapped_code
               (py_str (dict_get record ''StudentID'' (dict_get record ''student_id'' (PStr []))))
               (parse (dict_get record ''Date'' (dict_get record ''date'' (PStr []))))
               ''None'']"
    using none_code by (simp add: process_record_def map_code_def Let_def split: prod.splits)
  show "strip (py_str (dict_get record ''Status'' (dict_get record ''status'' (PStr [])))) = []
    \<longrightarrow> ar_status (fst (process_record parse show_date today p record source)) = ABSENT \<and>
        ap_issues (snd (process_record parse show_date today p record source)) = ap_issues p"
    by (simp add: process_record_def map_code_def Let_def split: prod.splits)
  show "record ''Status'' = None \<and> record ''status'' = None
    \<longrightarrow> strip (py_str (dict_get record ''Status'' (dict_get record ''status'' (PStr [])))) = []"
    by (simp add: dict_get_def strip_def)
qed

theorem C8_unmapped_code_witness:
  "custom_mappings (code_mapper new_processor) (strip (lower ''ZZ'')) = None \<and>
   map_of CODE_MAPPINGS (strip (lower ''ZZ'')) = None \<and>
   fst (map_code (code_mapper new_processor) ''ZZ'') = (ABSENT, False) \<and>
   strip (py_str (dict_get odd_status_row ''Status'' (dict_get odd_status_row ''status'' (PStr [])))) = ''ZZ'' \<and>
   ar_status (fst (process_record (\<lambda>v. Some 738529) (\<lambda>d. ''2023-01-09'') 738600
                     new_processor odd_status_row ''default'')) = ABSENT \<and>
   ap_issues (snd (process_record (\<lambda>v. Some 738529) (\<lambda>d. ''2023-01-09'') 738600
                     new_processor odd_status_row ''default'')) =
     [Unmapped_code ''S1'' (Some 738529) ''ZZ''] \<and>
   ap_issues reported_processor = [Unmapped_code ''S1'' (Some 738529) ''ZZ''] \<and>
   missing_status_row ''Status'' = None \<and> missing_status_row ''status'' = None \<and>
   ar_status (fst (process_record (\<lambda>v. Some 738529) (\<lambda>d. ''2023-01-09'') 738600
                     reported_processor missing_status_row ''default'')) = ABSENT \<and>
   ap_issues (snd (process_record (\<lambda>v. Some 738529) (\<lambda>d. ''2023-01-09'') 738600
                     reported_processor missing_status_row ''default'')) =
     [Unmapped_code ''S1'' (Some 738529) ''ZZ''] \<and>
   dict_get none_status_row ''Status'' (dict_get none_status_row ''status'' (PStr [])) = PNone \<and>
   ap_issues (snd (process_record (\<lambda>v. Some 738529) (\<lambda>d. ''2023-01-09'') 738600
                     reported_processor none_status_row ''default'')) =
     [Unmapped_code ''S1'' (Some 738529) ''ZZ'', Unmapped_code ''S3'' (Some 738529) ''None'']"
proof -
  have odd:
    "custom_mappings (code_mapper new_processor) (strip (lower ''ZZ'')) = None \<and>
     map_of CODE_MAPPINGS (strip (lower ''ZZ'')) = None \<and>
     fst (map_code (code_mapper new_processor) ''ZZ'') = (ABSENT, False) \<and>
     strip (py_str (dict_get odd_status_row ''Status'' (dict_get odd_status_row ''status'' (PStr [])))) = ''ZZ'' \<and>
     ar_status (fst (process_record (\<lambda>v. Some 738529) (\<lambda>d. ''2023-01-09'') 738600
                       new_processor odd_status_row ''default'')) = ABSENT \<and>
     ap_issues (snd (process_record (\<lambda>v. Some 738529) (\<lambda>d. ''2023-01-09'') 738600
                       new_processor odd_status_row ''default'')) =
       [Unmapped_code ''S1'' (Some 738529) ''ZZ'']"
    using C8_unmapped_code [of "code_mapper new_processor" "''ZZ''" odd_status_row new_processor
            "\<lambda>v. Some 738529" "\<lambda>d. ''2023-01-09''" 738600 "''default''"]
    by (simp add: new_processor_def new_mapper_def odd_status_row_def dict_get_def strip_def
        lower_def lower_char_def is_space_def CODE_MAPPINGS_def Let_def)
  then have rep: "ap_issues reported_processor = [Unmapped_code ''S1'' (Some 738529) ''ZZ'']"
    by (simp add: reported_processor_def)
  have cm: "custom_mappings (code_mapper reported_processor) ''none'' = None"
    by (simp add: reported_processor_def process_record_def map_code_def new_processor_def
        new_mapper_def Let_def split: prod.splits if_splits option.splits)
  have keys: "missing_status_row ''Status'' = None \<and> missing_status_row ''status'' = None"
    by (simp add: missing_status_row_def)
  have missing:
    "ar_status (fst (process_record (\<lambda>v. Some 738529) (\<lambda>d. ''2023-01-09'') 738600
                       reported_processor missing_status_row ''default'')) = ABSENT \<and>
     ap_issues (snd (process_record (\<lambda>v. Some 738529) (\<lambda>d. ''2023-01-09'') 738600
                       reported_processor missing_status_row ''default'')) =
       [Unmapped_code ''S1'' (Some 738529) ''ZZ'']"
    using keys rep
      C8_unmapped_code [of "code_mapper new_processor" "''ZZ''" missing_status_row reported_processor
            "\<lambda>v. Some 738529" "\<lambda>d. ''2023-01-09''" 738600 "''default''"]
    by simp
  have nn: "dict_get none_status_row ''Status'' (dict_get none_status_row ''status'' (PStr [])) = PNone"
    by (simp add: none_status_row_def dict_get_def)
  have sid: "py_str (dict_get none_status_row ''StudentID'' (dict_get none_status_row ''student_id'' (PStr []))) = ''S3''"
    by (simp add: none_status_row_def dict_get_def)
  have none:
    "ap_issues (snd (process_record (\<lambda>v. Some 738529) (\<lambda>d. ''2023-01-09'') 738600
                       reported_processor none_status_row ''default'')) =
       [Unmapped_code ''S1'' (Some 738529) ''ZZ'', Unmapped_code ''S3'' (Some 738529) ''None'']"
    using nn cm rep sid
      C8_unmapped_code [of "code_mapper new_processor" "''ZZ''" none_status_row reported_processor
            "\<lambda>v. Some 738529" "\<lambda>d. ''2023-01-09''" 738600 "''default''"]
    by simp
  show ?thesis
    using odd rep keys missing nn none by blast
qed

section \<open>Attendance rate\<close>

lemma py_round2_bounds:
  assumes "0 \<le> x" and "x \<le> 100"
  shows "0 \<le> py_round 2 x \<and> py_round 2 x \<le> 100"
proof -
  define s where "s = x * 100"
  define f where "f = \<lfloor>s\<rfloor>"
  define r where "r = (if s - of_int f < 1 / 2 then f else if 1 / 2 < s - of_int f then f + 1
                       else if even f then f else f + 1)"
  have s0: "0 \<le> s" and s1: "s \<le> 10000"
    using assms by (simp_all add: s_def)
  have f0: "0 \<le> f"
    using s0 by (simp add: f_def)
  have fs: "of_int f \<le> s"
    by (simp add: f_def)
  have f1: "f \<le> 10000"
  proof -
    have "of_int f \<le> (10000 :: rat)" using fs s1 by linarith
    then show ?thesis by linarith
  qed
  have up: "f + 1 \<le> 10000" if "\<not> s - of_int f < 1 / 2"
  proof -
    have "of_int f < s" using that by linarith
    then have "of_int f < (10000 :: rat)" using s1 by linarith
    then have "f < 10000" by linarith
    then show ?thesis by linarith
  qed
  have r0: "0 \<le> r" using f0 by (simp add: r_def)
  have r1: "r \<le> 10000" using f1 up by (auto simp add: r_def)
  have eq: "py_round 2 x = of_int r / 100"
    by (simp add: py_round_def Let_def s_def f_def r_def)
  have "0 \<le> (of_int r :: rat) / 100" using r0 by simp
  moreover have "(of_int r :: rat) / 100 \<le> 100"
  proof -
    have "(of_int r :: rat) \<le> 10000" using r1 by linarith
    then show ?thesis by simp
  qed
  ultimately show ?thesis by (simp add: eq)
qed

lemma py_round2_100: "py_round 2 100 = 100"
  by (simp add: py_round_def Let_def)

lemma rate_range:
  assumes "n \<le> t" and "0 < t"
  shows "0 \<le> fround 2 (fmul (fdiv (of_nat n) (of_nat t)) 100) \<and>
         fround 2 (fmul (fdiv (of_nat n) (of_nat t)) 100) \<le> 100"
proof -
  define w where "w = fdiv (of_nat n) (of_nat t)"
  define q where "q = fmul w 100"
  have "(of_nat n :: rat) \<le> of_nat t"
    using assms(1) by (simp only: of_nat_le_iff)
  then have "(of_nat n :: rat) / of_nat t \<le> of_int 1"
    using assms(2) by (simp add: divide_le_eq)
  moreover have "0 \<le> (of_nat n :: rat) / of_nat t" by simp
  ultimately have w: "0 \<le> w \<and> w \<le> of_int 1"
    unfolding w_def fdiv_def by (intro float_of_range) simp_all
  then have "0 \<le> w * 100" and "w * 100 \<le> of_int 100"
    by simp_all
  then have q: "0 \<le> q \<and> q \<le> of_int 100"
    unfolding q_def fmul_def by (intro float_of_range) simp_all
  then have r: "0 \<le> py_round 2 q \<and> py_round 2 q \<le> of_int 100"
    using py_round2_bounds [of q] by simp
  then have "0 \<le> float_of (py_round 2 q) \<and> float_of (py_round 2 q) \<le> of_int 100"
    by (intro float_of_range) simp_all
  then show ?thesis
    by (simp add: fround_def q_def w_def)
qed

lemma rate_full: "0 < t \<Longrightarrow> fround 2 (fmul (fdiv (of_nat t) (of_nat t)) 100) = 100"
  by (simp add: fround_def fmul_def fdiv_def float_of_1 float_of_100 py_round2_100)

text \<open>
  The rate is the result of three roundings, not the exactly rounded percentage: 23 days
  of 160 are 14.375 percent, the float product is just below that, and the rate is the
  double written 14.37.
\<close>

lemma rate_23_of_160:
  "fmul (fdiv 23 160) 100 = 8092405580431359 / 562949953421312 \<and>
   fmul (fdiv 23 160) 100 < 14375 / 1000 \<and>
   fround 2 (fmul (fdiv 23 160) 100) = float_of (1437 / 100) \<and>
   py_round 2 (23 / 160 * 100) = 1438 / 100"
proof -
  have d: "fdiv 23 160 = 2589569785738035 / 18014398509481984"
    by (simp add: fdiv_def float_eval)
  have m: "fmul (2589569785738035 / 18014398509481984) 100 = 8092405580431359 / 562949953421312"
    by (simp add: fmul_def float_eval)
  have r: "py_round 2 (8092405580431359 / 562949953421312) = 1437 / 100"
    by (simp add: py_round_def float_eval)
  have x: "py_round 2 (23 / 160 * 100) = 1438 / 100"
    by (simp add: py_round_def float_eval)
  have p: "fmul (fdiv 23 160) 100 = 8092405580431359 / 562949953421312"
    by (simp only: d m)
  have l: "fmul (fdiv 23 160) 100 < 14375 / 1000"
    by (simp add: p)
  have f: "fround 2 (fmul (fdiv 23 160) 100) = float_of (1437 / 100)"
    by (simp only: p fround_def r)
  show ?thesis
    using p l f x by blast
qed

lemma build_daily_summary_records:
  "ap_records (snd (build_daily_summary p sid d)) = ap_records p"
  by (simp add: build_daily_summary_def Let_def)

lemma day_status_records:
  "ap_records p' = ap_records p \<Longrightarrow> day_status p' sid d = day_status p sid d"
  by (simp add: day_status_def build_daily_summary_def records_of_def Let_def)

lemma count_day_total: "total_days (count_day st a) = total_days a"
  by (simp add: count_day_def)

lemma count_day_bound:
  "days_present (count_day st a) + days_tardy (count_day st a) \<le> days_present a + days_tardy a + 1"
  by (simp add: count_day_def)

lemma count_day_present:
  "days_present (count_day PRESENT a) = days_present a + 1 \<and>
   days_tardy (count_day PRESENT a) = days_tardy a"
  by (simp add: count_day_def)

lemma aggregate_days_total:
  "total_days (fst (aggregate_days sid bd (a, p))) = total_days a"
proof (induction bd arbitrary: a p)
  case Nil
  show ?case by simp
next
  case (Cons x bd)
  obtain d rs where x: "x = (d, rs)" by (cases x) auto
  show ?case
    by (simp add: x Cons.IH count_day_total split: prod.splits)
qed

lemma aggregate_days_bound:
  "days_present (fst (aggregate_days sid bd (a, p))) + days_tardy (fst (aggregate_days sid bd (a, p)))
     \<le> days_present a + days_tardy a + length bd"
proof (induction bd arbitrary: a p)
  case Nil
  show ?case by simp
next
  case (Cons x bd)
  obtain d rs where x: "x = (d, rs)" by (cases x) auto
  obtain sm p' where b: "build_daily_summary p sid d = (sm, p')"
    by (cases "build_daily_summary p sid d") auto
  have "days_present (fst (aggregate_days sid bd (count_day (daily_status sm) a, p'))) +
        days_tardy (fst (aggregate_days sid bd (count_day (daily_status sm) a, p')))
        \<le> days_present (count_day (daily_status sm) a) + days_tardy (count_day (daily_status sm) a)
          + length bd"
    by (rule Cons.IH)
  also have "\<dots> \<le> days_present a + days_tardy a + 1 + length bd"
    using count_day_bound [of "daily_status sm" a] by linarith
  finally show ?case by (simp add: x b)
qed

lemma aggregate_days_all_present:
  assumes "\<forall>d \<in> fst ` set bd. day_status p sid d = PRESENT"
  shows "days_present (fst (aggregate_days sid bd (a, p))) = days_present a + length bd \<and>
         days_tardy (fst (aggregate_days sid bd (a, p))) = days_tardy a"
  using assms
proof (induction bd arbitrary: a p)
  case Nil
  show ?case by simp
next
  case (Cons x bd)
  obtain d rs where x: "x = (d, rs)" by (cases x) auto
  obtain sm p' where b: "build_daily_summary p sid d = (sm, p')"
    by (cases "build_daily_summary p sid d") auto
  have sm: "daily_status sm = PRESENT"
    using Cons.prems b by (simp add: x day_status_def)
  have recs: "ap_records p' = ap_records p"
    using build_daily_summary_records [of p sid d] by (simp add: b)
  have "\<forall>d \<in> fst ` set bd. day_status p' sid d = PRESENT"
    using Cons.prems day_status_records [OF recs] by simp
  then have "days_present (fst (aggregate_days sid bd (count_day PRESENT a, p'))) =
               days_present (count_day PRESENT a) + length bd \<and>
             days_tardy (fst (aggregate_days sid bd (count_day PRESENT a, p'))) =
               days_tardy (count_day PRESENT a)"
    by (rule Cons.IH)
  then show ?case
    by (simp add: x b sm count_day_present)
qed

lemma group_by_date_step_keys:
  "fst ` set (fold (\<lambda>r by_date.
             AList.update (ar_date r)
               ((case map_of by_date (ar_date r) of None \<Rightarrow> [] | Some xs \<Rightarrow> xs) @ [r]) by_date)
          rs acc) = ar_date ` set rs \<union> fst ` set acc"
  by (induction rs arbitrary: acc) (auto simp add: dom_update)

lemma group_by_date_keys: "fst ` set (group_by_date rs) = ar_date ` set rs"
  using group_by_date_step_keys [of rs "[]"] by (simp add: group_by_date_def)

lemma group_by_date_empty: "(group_by_date rs = []) = (rs = [])"
proof
  assume "group_by_date rs = []"
  then have "ar_date ` set rs = {}" using group_by_date_keys [of rs] by simp
  then show "rs = []" by simp
next
  assume "rs = []"
  then show "group_by_date rs = []" by (simp add: group_by_date_def)
qed

lemma calculate_rate_fields:
  "total_days (calculate_rate a) = total_days a \<and> days_present (calculate_rate a) = days_present a \<and>
   days_tardy (calculate_rate a) = days_tardy a"
  by (simp add: calculate_rate_def)

lemma calculate_rate_idem: "calculate_rate (calculate_rate a) = calculate_rate a"
  by (simp add: calculate_rate_def)

lemma calculate_aggregate_fst:
  "fst (calculate_aggregate p sid start end) =
     calculate_rate (fst (aggregate_days sid
       (group_by_date (filter (\<lambda>r. start \<le> ar_date r \<and> ar_date r \<le> end) (records_of p sid)))
       (\<lparr>ag_student_id = sid, ag_start_date = start, ag_end_date = end,
         days_present = 0, days_absent = 0, days_tardy = 0, days_excused = 0,
         days_unexcused = 0,
         total_days = length (group_by_date
           (filter (\<lambda>r. start \<le> ar_date r \<and> ar_date r \<le> end) (records_of p sid))),
         attendance_rate = 0\<rparr>, p)))"
  by (simp add: calculate_aggregate_def Let_def split: prod.splits)

text \<open>
  C7 as worded fails for a student without a record in the range: every day of the range
  that has records (there is none) is Present, and the rate is 0, not 100.
\<close>

theorem C7_counterexample:
  "filter (\<lambda>r. 738521 \<le> ar_date r \<and> ar_date r \<le> 738550) (records_of new_processor ''S1'') = [] \<and>
   attendance_rate (calculate_rate (fst (calculate_aggregate new_processor ''S1'' 738521 738550))) = 0"
  by (simp add: calculate_aggregate_def calculate_rate_def group_by_date_def records_of_def
      new_processor_def Let_def)

text \<open>
  C7 (amended). For the aggregate \<open>a\<close> that \<open>calculate_aggregate\<close> returns,
  \<open>calculate_rate\<close> returns a value in \<open>[0, 100]\<close>. The aggregate counts a day exactly
  when the student has a record in the range; when it counts at least one day the rate is
  \<open>round((days_present + days_tardy) / total_days * 100, 2)\<close> as Python evaluates it in
  floats, the quotient, the product and the two-decimal result each rounded to the
  nearest double, and it is 100 when moreover every such day has daily status Present;
  when it counts no day the rate is 0.
\<close>

theorem C7_attendance_rate:
  "0 \<le> attendance_rate (calculate_rate (fst (calculate_aggregate p sid start end))) \<and>
   attendance_rate (calculate_rate (fst (calculate_aggregate p sid start end))) \<le> 100 \<and>
   ((0 < total_days (fst (calculate_aggregate p sid start end))) =
      (\<exists>r \<in> set (records_of p sid). start \<le> ar_date r \<and> ar_date r \<le> end)) \<and>
   (0 < total_days (fst (calculate_aggregate p sid start end)) \<longrightarrow>
      attendance_rate (calculate_rate (fst (calculate_aggregate p sid start end))) =
        fround 2 (fmul (fdiv (of_nat (days_present (fst (calculate_aggregate p sid start end)) +
                                      days_tardy (fst (calculate_aggregate p sid start end))))
                             (of_nat (total_days (fst (calculate_aggregate p sid start end))))) 100)) \<and>
   (total_days (fst (calculate_aggregate p sid start end)) = 0 \<longrightarrow>
      attendance_rate (calculate_rate (fst (calculate_aggregate p sid start end))) = 0) \<and>
   ((\<exists>r \<in> set (records_of p sid). start \<le> ar_date r \<and> ar_date r \<le> end) \<and>
    (\<forall>r \<in> set (records_of p sid). start \<le> ar_date r \<and> ar_date r \<le> end \<longrightarrow>
        day_status p sid (ar_date r) = PRESENT) \<longrightarrow>
      attendance_rate (calculate_rate (fst (calculate_aggregate p sid start end))) = 100)"
proof -
  define rel where "rel = filter (\<lambda>r. start \<le> ar_date r \<and> ar_date r \<le> end) (records_of p sid)"
  define bd where "bd = group_by_date rel"
  define a0 where "a0 =
    \<lparr>ag_student_id = sid, ag_start_date = start, ag_end_date = end,
     days_present = 0, days_absent = 0, days_tardy = 0, days_excused = 0,
     days_unexcused = 0, total_days = length bd, attendance_rate = 0\<rparr>"
  define a1 where "a1 = fst (aggregate_days sid bd (a0, p))"
  define a where "a = fst (calculate_aggregate p sid start end)"
  have a: "a = calculate_rate a1"
    unfolding a_def a1_def a0_def bd_def rel_def by (rule calculate_aggregate_fst)
  have total1: "total_days a1 = length bd"
    using aggregate_days_total [of sid bd a0 p] by (simp add: a1_def a0_def)
  have bound1: "days_present a1 + days_tardy a1 \<le> length bd"
    using aggregate_days_bound [of sid bd a0 p] by (simp add: a1_def a0_def)
  have total: "total_days a = length bd"
    by (simp add: a calculate_rate_fields total1)
  have pres: "days_present a = days_present a1" and tard: "days_tardy a = days_tardy a1"
    by (simp_all add: a calculate_rate_fields)
  have rate_eq: "calculate_rate a = a"
    by (simp add: a calculate_rate_idem)
  have nonempty: "(0 < length bd) = (\<exists>r \<in> set (records_of p sid). start \<le> ar_date r \<and> ar_date r \<le> end)"
  proof -
    have "(0 < length bd) = (rel \<noteq> [])"
      using group_by_date_empty [of rel] by (simp add: bd_def)
    also have "\<dots> = (\<exists>r \<in> set (records_of p sid). start \<le> ar_date r \<and> ar_date r \<le> end)"
      by (simp add: rel_def filter_empty_conv)
    finally show ?thesis .
  qed
  have formula: "attendance_rate a =
      fround 2 (fmul (fdiv (of_nat (days_present a + days_tardy a)) (of_nat (total_days a))) 100)"
    if "0 < length bd"
    using that by (simp add: a calculate_rate_def total1)
  have zero: "attendance_rate a = 0" if "length bd = 0"
    using that by (simp add: a calculate_rate_def total1 a1_def a0_def)
  have range: "0 \<le> attendance_rate a \<and> attendance_rate a \<le> 100"
  proof (cases "0 < length bd")
    case True
    have le: "days_present a + days_tardy a \<le> total_days a"
      using bound1 by (simp add: pres tard total)
    have pos: "0 < total_days a"
      using True by (simp add: total)
    show ?thesis
      using rate_range [OF le pos] formula [OF True] by simp
  next
    case False
    then show ?thesis using zero by simp
  qed
  have full: "attendance_rate a = 100"
    if ex: "\<exists>r \<in> set (records_of p sid). start \<le> ar_date r \<and> ar_date r \<le> end"
    and all: "\<forall>r \<in> set (records_of p sid). start \<le> ar_date r \<and> ar_date r \<le> end \<longrightarrow>
        day_status p sid (ar_date r) = PRESENT"
  proof -
    have pos: "0 < length bd" using ex nonempty by simp
    have "\<forall>d \<in> fst ` set bd. day_status p sid d = PRESENT"
      using all by (auto simp add: bd_def group_by_date_keys rel_def)
    then have "days_present a1 = length bd \<and> days_tardy a1 = 0"
      using aggregate_days_all_present [of bd p sid a0] by (simp add: a1_def a0_def)
    then have "attendance_rate a =
        fround 2 (fmul (fdiv (of_nat (length bd)) (of_nat (length bd))) 100)"
      using formula [OF pos] by (simp add: pres tard total)
    then show ?thesis using pos by (simp add: rate_full)
  qed
  show ?thesis
    using range nonempty formula zero full
    unfolding a_def [symmetric] rate_eq total by blast
qed

theorem C7_attendance_rate_witness:
  "records_of attended_processor ''S1'' = [day_rec 738529 PRESENT, day_rec 738530 PRESENT] \<and>
   day_status attended_processor ''S1'' 738529 = PRESENT \<and>
   day_status attended_processor ''S1'' 738530 = PRESENT \<and>
   0 < total_days (fst (calculate_aggregate attended_processor ''S1'' 738521 738550)) \<and>
   attendance_rate (calculate_rate (fst (calculate_aggregate attended_processor ''S1'' 738521 738550))) = 100"
proof -
  have ex: "\<exists>r \<in> set (records_of attended_processor ''S1''). 738521 \<le> ar_date r \<and> ar_date r \<le> 738550"
    by (simp add: attended_processor_def records_of_def day_rec_def)
  have all: "\<forall>r \<in> set (records_of attended_processor ''S1''). 738521 \<le> ar_date r \<and> ar_date r \<le> 738550 \<longrightarrow>
        day_status attended_processor ''S1'' (ar_date r) = PRESENT"
    by (simp add: attended_processor_def records_of_def day_rec_def day_status_def
        build_daily_summary_def calculate_daily_status_def is_absent_def Let_def)
  have recs: "records_of attended_processor ''S1'' = [day_rec 738529 PRESENT, day_rec 738530 PRESENT]"
    by (simp add: attended_processor_def records_of_def)
  have days: "day_status attended_processor ''S1'' 738529 = PRESENT \<and>
              day_status attended_processor ''S1'' 738530 = PRESENT"
    using all by (simp add: recs day_rec_def)
  show ?thesis
    using ex all recs days C7_attendance_rate [of attended_processor "''S1''" 738521 738550] by blast
qed

section \<open>Normalizing enrollment spans\<close>

lemma interval_union:
  "a \<le> c \<Longrightarrow> c \<le> b + 1 \<Longrightarrow> b \<le> d \<Longrightarrow> {a..b} \<union> {c..d} = {a..(d::int)}"
  by auto

text \<open>
  C1 fails on the code. An ongoing span that overlaps the previous closed span of the same
  school is dropped and the previous span keeps its end date; an ongoing previous span
  that a closed span overlaps is cut back to the end of the closed span. In both cases the
  student's spans covered 335 days before the normalization and cover 152 days after it.
\<close>

theorem C1_normalize_loses_days:
  "fst (normalize_enrollments 738855 ongoing_second ''S1'') = [span ''E1'' 738521 (Some 738672)] \<and>
   card (covered_days 738855 [span ''E1'' 738521 (Some 738672), span ''E2'' 738641 None]) = 335 \<and>
   card (covered_days 738855 (fst (normalize_enrollments 738855 ongoing_second ''S1''))) = 152 \<and>
   fst (normalize_enrollments 738855 ongoing_first ''S1'') = [span ''E1'' 738521 (Some 738672)] \<and>
   card (covered_days 738855 [span ''E1'' 738521 None, span ''E2'' 738580 (Some 738672)]) = 335 \<and>
   card (covered_days 738855 (fst (normalize_enrollments 738855 ongoing_first ''S1''))) = 152"
proof -
  have n1: "fst (normalize_enrollments 738855 ongoing_second ''S1'') = [span ''E1'' 738521 (Some 738672)]"
    by (simp add: normalize_enrollments_def ongoing_second_def span_def resolve_step_def
        overlaps_with_def end_or_today_def Let_def)
  have n2: "fst (normalize_enrollments 738855 ongoing_first ''S1'') = [span ''E1'' 738521 (Some 738672)]"
    by (simp add: normalize_enrollments_def ongoing_first_def span_def resolve_step_def
        overlaps_with_def end_or_today_def Let_def)
  have c1: "covered_days 738855 [span ''E1'' 738521 (Some 738672), span ''E2'' 738641 None] =
              {738521..738855}"
    by (simp add: covered_days_def span_days_def end_or_today_def span_def interval_union)
  have c2: "covered_days 738855 [span ''E1'' 738521 None, span ''E2'' 738580 (Some 738672)] =
              {738521..738855}"
    by (auto simp add: covered_days_def span_days_def end_or_today_def span_def)
  have c3: "covered_days 738855 [span ''E1'' 738521 (Some 738672)] = {738521..738672}"
    by (simp add: covered_days_def span_days_def end_or_today_def span_def)
  show ?thesis
    by (simp add: n1 n2 c1 c2 c3)
qed

section \<open>Golden ids\<close>

lemma zero_padding: "replicate (numeral k) (0::int) = 0 # replicate (pred_numeral k) 0"
  by (simp add: numeral_eq_Suc)

lemma md5_ann_lee: "md5_hexdigest ''Ann|Lee|None|S1'' = ''1c6d4f355631100ed96ee59783f1e895''"
  by (simp add: md5_hexdigest_def md5_pad_def zero_padding md5_blocks.simps
      md5_table_def md5_mix_def add32_def not32_def rotl32_def le_hex_def hex_byte_def)

lemma md5_zed_lee: "md5_hexdigest ''Zed|Lee|None|S1'' = ''aaee752a600634c4e620c9cc4d7bfd8c''"
  by (simp add: md5_hexdigest_def md5_pad_def zero_padding md5_blocks.simps
      md5_table_def md5_mix_def add32_def not32_def rotl32_def le_hex_def hex_byte_def)

lemma md5_bob_ray: "md5_hexdigest ''Bob|Ray|None|S2'' = ''255f5c892b0a97fde4438f34e4dfe72f''"
  by (simp add: md5_hexdigest_def md5_pad_def zero_padding md5_blocks.simps
      md5_table_def md5_mix_def add32_def not32_def rotl32_def le_hex_def hex_byte_def)

lemma golden_id_new_golden:
  "golden_id (new_golden record source sid) = key_golden_id (tuple_key (identity_tuple record))"
  by (simp add: new_golden_def Let_def generate_golden_id_def golden_key_def add_source_id_def
      identity_tuple_def key_golden_id_def)

lemma golden_id_add_source_id: "golden_id (add_source_id g source sid) = golden_id g"
  by (simp add: add_source_id_def)

lemma merge_first_keeps_ids:
  "merge_first record source sid gs = Some (k, gs') \<Longrightarrow>
     map fst gs' = map fst gs \<and> map (\<lambda>p. golden_id (snd p)) gs' = map (\<lambda>p. golden_id (snd p)) gs"
proof (induction gs arbitrary: k gs')
  case Nil
  then show ?case by simp
next
  case (Cons x gs)
  obtain gid g where x: "x = (gid, g)" by (cases x) auto
  show ?case
  proof (cases "merges_with record source g")
    case True
    then show ?thesis using Cons.prems by (auto simp add: x golden_id_add_source_id)
  next
    case False
    then obtain k0 rest where r: "merge_first record source sid gs = Some (k0, rest)"
      and k: "k = k0" and gs': "gs' = (gid, g) # rest"
      using Cons.prems by (auto simp add: x split: option.splits)
    show ?thesis using Cons.IH [OF r] by (simp add: gs' x)
  qed
qed

lemma resolve_new_id:
  "snd (fst (resolve_identity r record source)) \<Longrightarrow>
     fst (fst (resolve_identity r record source)) = key_golden_id (tuple_key (identity_tuple record))"
  by (auto simp add: resolve_identity_def Let_def golden_id_new_golden split: option.splits)

lemma resolve_fresh:
  "fst (resolve_identity new_resolver record source) =
     (key_golden_id (tuple_key (identity_tuple record)), True) \<and>
   golden_records (snd (resolve_identity new_resolver record source)) =
     [(key_golden_id (tuple_key (identity_tuple record)),
       new_golden record source
         (py_str (dict_get record ''student_id'' (dict_get record ''id'' (PStr [])))))] \<and>
   source_to_golden (snd (resolve_identity new_resolver record source)) =
     [source \<mapsto> [py_str (dict_get record ''student_id'' (dict_get record ''id'' (PStr []))) \<mapsto>
                  key_golden_id (tuple_key (identity_tuple record))]]"
  by (simp add: resolve_identity_def new_resolver_def Let_def set_source_mapping_def
      golden_id_new_golden)

lemma resolve_twice_fresh:
  assumes "identity_tuple rec1 = identity_tuple rec2"
  shows "fst (fst (resolve_identity (snd (resolve_identity new_resolver rec1 s1)) rec2 s2)) =
         fst (fst (resolve_identity new_resolver rec1 s1))"
proof -
  define st where "st = snd (resolve_identity new_resolver rec1 s1)"
  define k where "k = key_golden_id (tuple_key (identity_tuple rec1))"
  define sid1 where "sid1 = py_str (dict_get rec1 ''student_id'' (dict_get rec1 ''id'' (PStr [])))"
  have g: "golden_records st = [(k, new_golden rec1 s1 sid1)]"
    and m: "source_to_golden st = [s1 \<mapsto> [sid1 \<mapsto> k]]"
    and f: "fst (fst (resolve_identity new_resolver rec1 s1)) = k"
    using resolve_fresh [of rec1 s1] by (simp_all add: st_def k_def sid1_def)
  have k2: "key_golden_id (tuple_key (identity_tuple rec2)) = k"
    using assms by (simp add: k_def)
  have "fst (fst (resolve_identity st rec2 s2)) = k"
    by (auto simp add: resolve_identity_def Let_def g m golden_id_new_golden k2
        split: option.splits if_splits)
  then show ?thesis by (simp add: f st_def)
qed

lemma resolve_merge_keeps_ids:
  assumes "\<not> snd (fst (resolve_identity r record source))"
  shows "map fst (golden_records (snd (resolve_identity r record source))) =
           map fst (golden_records r) \<and>
         map (\<lambda>p. golden_id (snd p)) (golden_records (snd (resolve_identity r record source))) =
           map (\<lambda>p. golden_id (snd p)) (golden_records r)"
  using assms
  by (auto simp add: resolve_identity_def Let_def split: option.splits
      dest: merge_first_keeps_ids)

lemma zed_lee_resolutions:
  "fst (resolve_identity new_resolver zed_lee ''sis'') = (''GR-AAEE752A6006'', True) \<and>
   fst (resolve_identity (snd (resolve_identity new_resolver ann_s1 ''sis'')) zed_lee ''sis'') =
     (''GR-1C6D4F355631'', False)"
proof -
  have kz: "tuple_key (identity_tuple zed_lee) = ''Zed|Lee|None|S1''"
    by (simp add: identity_tuple_def zed_lee_def dict_get_def strip_def title_def is_space_def
        is_lower_def is_upper_def upper_char_def lower_char_def)
  have ka: "tuple_key (identity_tuple ann_s1) = ''Ann|Lee|None|S1''"
    by (simp add: identity_tuple_def ann_s1_def dict_get_def strip_def title_def is_space_def
        is_lower_def is_upper_def upper_char_def lower_char_def)
  have iz: "key_golden_id ''Zed|Lee|None|S1'' = ''GR-AAEE752A6006''"
    by (simp add: key_golden_id_def md5_zed_lee upper_def upper_char_def)
  have ia: "key_golden_id ''Ann|Lee|None|S1'' = ''GR-1C6D4F355631''"
    by (simp add: key_golden_id_def md5_ann_lee upper_def upper_char_def)
  have first: "fst (resolve_identity new_resolver zed_lee ''sis'') = (''GR-AAEE752A6006'', True)"
    using resolve_fresh [of zed_lee "''sis''"] by (simp add: kz iz)
  have sid_a: "py_str (dict_get ann_s1 ''student_id'' (dict_get ann_s1 ''id'' (PStr []))) = ''1''"
    by (simp add: ann_s1_def dict_get_def)
  have sid_z: "py_str (dict_get zed_lee ''student_id'' (dict_get zed_lee ''id'' (PStr []))) = ''2''"
    by (simp add: zed_lee_def dict_get_def)
  have st: "golden_records (snd (resolve_identity new_resolver ann_s1 ''sis'')) =
              [(''GR-1C6D4F355631'', new_golden ann_s1 ''sis'' ''1'')] \<and>
            source_to_golden (snd (resolve_identity new_resolver ann_s1 ''sis'')) =
              [''sis'' \<mapsto> [''1'' \<mapsto> ''GR-1C6D4F355631'']]"
    using resolve_fresh [of ann_s1 "''sis''"] by (simp add: ka ia sid_a)
  have sa: "state_id (new_golden ann_s1 ''sis'' ''1'') = PStr ''S1''"
    by (simp add: new_golden_def Let_def add_source_id_def ann_s1_def dict_get_def)
  have "''state_id'' \<in> set (fst (match_rules zed_lee (golden_dict (new_golden ann_s1 ''sis'' ''1''))))"
    by (rule state_id_matched) (simp_all add: zed_lee_def golden_dict_def dict_get_def sa)
  then have mw: "merges_with zed_lee ''sis'' (new_golden ann_s1 ''sis'' ''1'')"
    by (simp add: merges_with_def match_records_fields confidence_of_def)
  define st0 where "st0 = snd (resolve_identity new_resolver ann_s1 ''sis'')"
  have g0: "golden_records st0 = [(''GR-1C6D4F355631'', new_golden ann_s1 ''sis'' ''1'')]"
    and m0: "source_to_golden st0 = [''sis'' \<mapsto> [''1'' \<mapsto> ''GR-1C6D4F355631'']]"
    using st by (simp_all add: st0_def)
  have "fst (resolve_identity st0 zed_lee ''sis'') = (''GR-1C6D4F355631'', False)"
    by (simp add: resolve_identity_def Let_def g0 m0 sid_z mw)
  then have second:
    "fst (resolve_identity (snd (resolve_identity new_resolver ann_s1 ''sis'')) zed_lee ''sis'') =
       (''GR-1C6D4F355631'', False)"
    by (simp add: st0_def)
  show ?thesis using first second by simp
qed

text \<open>
  The three branches of \<open>resolve_identity\<close>: the cache, the first golden record in
  insertion order that matches with confidence Exact or High, a new golden record.
\<close>

lemma merge_first_some:
  "find (\<lambda>kg. merges_with record source (snd kg)) gs = Some (gid, g) \<Longrightarrow>
     \<exists>gs'. merge_first record source sid gs = Some (gid, gs')"
proof (induction gs)
  case Nil
  then show ?case by simp
next
  case (Cons x gs)
  obtain k h where x: "x = (k, h)" by (cases x) auto
  show ?case
  proof (cases "merges_with record source h")
    case True
    then show ?thesis using Cons.prems by (simp add: x)
  next
    case False
    then have "find (\<lambda>kg. merges_with record source (snd kg)) gs = Some (gid, g)"
      using Cons.prems by (simp add: x)
    then obtain gs' where "merge_first record source sid gs = Some (gid, gs')"
      using Cons.IH by blast
    then show ?thesis using False by (simp add: x)
  qed
qed

lemma merge_first_none:
  "find (\<lambda>kg. merges_with record source (snd kg)) gs = None \<Longrightarrow>
     merge_first record source sid gs = None"
  by (induction gs) (auto split: if_splits)

lemma resolve_cached:
  "cached_id r source (source_id_of record) = Some gid \<Longrightarrow>
     resolve_identity r record source = ((gid, False), r)"
  by (simp add: resolve_identity_def cached_id_def source_id_of_def Let_def)

lemma resolve_first_match:
  assumes "cached_id r source (source_id_of record) = None"
    and "find (\<lambda>kg. merges_with record source (snd kg)) (golden_records r) = Some (gid, g)"
  shows "fst (resolve_identity r record source) = (gid, False) \<and>
         cached_id (snd (resolve_identity r record source)) source (source_id_of record) = Some gid"
proof -
  obtain gs' where
    "merge_first record source (source_id_of record) (golden_records r) = Some (gid, gs')"
    using merge_first_some [OF assms(2)] by blast
  then show ?thesis
    using assms(1)
    by (simp add: resolve_identity_def cached_id_def source_id_of_def Let_def
        set_source_mapping_def)
qed

lemma resolve_no_match:
  assumes "cached_id r source (source_id_of record) = None"
    and "find (\<lambda>kg. merges_with record source (snd kg)) (golden_records r) = None"
  shows "fst (resolve_identity r record source) =
           (key_golden_id (tuple_key (identity_tuple record)), True)"
  using assms(1) merge_first_none [OF assms(2), of "source_id_of record"]
  by (simp add: resolve_identity_def cached_id_def source_id_of_def Let_def golden_id_new_golden)

lemma zed_lee_merges:
  "merges_with zed_lee ''sis'' (new_golden ann_s1 ''sis'' ''1'')"
proof -
  have sa: "state_id (new_golden ann_s1 ''sis'' ''1'') = PStr ''S1''"
    by (simp add: new_golden_def Let_def add_source_id_def ann_s1_def dict_get_def)
  have "''state_id'' \<in> set (fst (match_rules zed_lee (golden_dict (new_golden ann_s1 ''sis'' ''1''))))"
    by (rule state_id_matched) (simp_all add: zed_lee_def golden_dict_def dict_get_def sa)
  then show ?thesis
    by (simp add: merges_with_def match_records_fields confidence_of_def)
qed

lemma bob_s2_no_merge:
  "\<not> merges_with bob_s2 ''sis'' (new_golden ann_s1 ''sis'' ''1'')"
  by (simp add: merges_with_def match_records_def match_rules_def golden_dict_def new_golden_def
      add_source_id_def bob_s2_def ann_s1_def dict_get_def confidence_of_def normalize_name_def
      normalize_email_def normalize_phone_def py_or_def strip_def lower_def lower_char_def
      title_def is_space_def is_word_def is_upper_def is_lower_def is_digit_def upper_char_def
      collapse_spaces_def Let_def)

lemma two_goldens_state:
  "fst (resolve_identity (snd (resolve_identity new_resolver ann_s1 ''sis'')) bob_s2 ''sis'') =
     (''GR-255F5C892B0A'', True) \<and>
   golden_records (snd (resolve_identity new_resolver ann_s1 ''sis'')) =
     [(''GR-1C6D4F355631'', new_golden ann_s1 ''sis'' ''1'')] \<and>
   source_to_golden (snd (resolve_identity new_resolver ann_s1 ''sis'')) =
     [''sis'' \<mapsto> [''1'' \<mapsto> ''GR-1C6D4F355631'']] \<and>
   golden_records two_goldens =
     [(''GR-1C6D4F355631'', new_golden ann_s1 ''sis'' ''1''),
      (''GR-255F5C892B0A'', new_golden bob_s2 ''sis'' ''3'')] \<and>
   source_to_golden two_goldens =
     [''sis'' \<mapsto> [''1'' \<mapsto> ''GR-1C6D4F355631'', ''3'' \<mapsto> ''GR-255F5C892B0A'']]"
proof -
  have ka: "tuple_key (identity_tuple ann_s1) = ''Ann|Lee|None|S1''"
    by (simp add: identity_tuple_def ann_s1_def dict_get_def strip_def title_def is_space_def
        is_lower_def is_upper_def upper_char_def lower_char_def)
  have kb: "tuple_key (identity_tuple bob_s2) = ''Bob|Ray|None|S2''"
    by (simp add: identity_tuple_def bob_s2_def dict_get_def strip_def title_def is_space_def
        is_lower_def is_upper_def upper_char_def lower_char_def)
  have ia: "key_golden_id ''Ann|Lee|None|S1'' = ''GR-1C6D4F355631''"
    by (simp add: key_golden_id_def md5_ann_lee upper_def upper_char_def)
  have ib: "key_golden_id ''Bob|Ray|None|S2'' = ''GR-255F5C892B0A''"
    by (simp add: key_golden_id_def md5_bob_ray upper_def upper_char_def)
  have sid_a: "py_str (dict_get ann_s1 ''student_id'' (dict_get ann_s1 ''id'' (PStr []))) = ''1''"
    by (simp add: ann_s1_def dict_get_def)
  have sid_b: "py_str (dict_get bob_s2 ''student_id'' (dict_get bob_s2 ''id'' (PStr []))) = ''3''"
    by (simp add: bob_s2_def dict_get_def)
  define st0 where "st0 = snd (resolve_identity new_resolver ann_s1 ''sis'')"
  have g0: "golden_records st0 = [(''GR-1C6D4F355631'', new_golden ann_s1 ''sis'' ''1'')]"
    and m0: "source_to_golden st0 = [''sis'' \<mapsto> [''1'' \<mapsto> ''GR-1C6D4F355631'']]"
    using resolve_fresh [of ann_s1 "''sis''"] by (simp_all add: st0_def ka ia sid_a)
  have gb: "golden_id (new_golden bob_s2 ''sis'' ''3'') = ''GR-255F5C892B0A''"
    by (simp add: golden_id_new_golden kb ib)
  have r: "resolve_identity st0 bob_s2 ''sis'' =
             ((''GR-255F5C892B0A'', True),
              st0\<lparr>golden_records :=
                     [(''GR-1C6D4F355631'', new_golden ann_s1 ''sis'' ''1''),
                      (''GR-255F5C892B0A'', new_golden bob_s2 ''sis'' ''3'')],
                   source_to_golden :=
                     [''sis'' \<mapsto> [''1'' \<mapsto> ''GR-1C6D4F355631'', ''3'' \<mapsto> ''GR-255F5C892B0A'']]\<rparr>)"
    by (simp add: resolve_identity_def Let_def g0 m0 sid_b bob_s2_no_merge gb
        set_source_mapping_def)
  have t: "two_goldens = snd (resolve_identity st0 bob_s2 ''sis'')"
    by (simp add: two_goldens_def st0_def)
  show ?thesis
    using g0 m0 by (simp add: t r st0_def [symmetric])
qed

text \<open>
  C4 as worded fails. The same record resolves to one id in a resolver that has seen
  nothing, where a new golden record is created, and to another id in a resolver that
  already holds a golden record with the same state id, into which it is merged.
\<close>

theorem C4_counterexample:
  "fst (resolve_identity new_resolver zed_lee ''sis'') = (''GR-AAEE752A6006'', True) \<and>
   fst (resolve_identity (snd (resolve_identity new_resolver ann_s1 ''sis'')) zed_lee ''sis'') =
     (''GR-1C6D4F355631'', False)"
  by (rule zed_lee_resolutions)

text \<open>
  C4 (amended). Whenever \<open>resolve_identity\<close> creates a golden record, the id is
  computed from the tuple (title-cased stripped first name, title-cased stripped last name,
  date of birth, state id) of the record alone: two records with the same tuple that are
  both resolved as new get the same id, in whatever resolvers. A freshly constructed
  resolver resolves every record as new, and resolves a second record with the same tuple
  to the id of the first. When a record is merged or found in the cache instead, the keys
  of the golden records and the ids stored in them are the same before and after. Which
  id a record gets is decided in this order: the id cached for its source id, with the
  resolver unchanged; else the key of the first golden record, in insertion order, that
  it matches with confidence Exact or High, which is then cached for its source id; else
  the id computed from its tuple, for a new golden record.
\<close>

theorem C4_golden_id:
  "(snd (fst (resolve_identity r1 rec1 s1)) \<and> snd (fst (resolve_identity r2 rec2 s2)) \<and>
      identity_tuple rec1 = identity_tuple rec2
      \<longrightarrow> fst (fst (resolve_identity r1 rec1 s1)) = fst (fst (resolve_identity r2 rec2 s2))) \<and>
   fst (resolve_identity new_resolver rec1 s1) =
     (key_golden_id (tuple_key (identity_tuple rec1)), True) \<and>
   (identity_tuple rec1 = identity_tuple rec2
      \<longrightarrow> fst (fst (resolve_identity new_resolver rec1 s1)) =
            fst (fst (resolve_identity new_resolver rec2 s2)) \<and>
          fst (fst (resolve_identity (snd (resolve_identity new_resolver rec1 s1)) rec2 s2)) =
            fst (fst (resolve_identity new_resolver rec1 s1))) \<and>
   (\<not> snd (fst (resolve_identity r1 rec1 s1))
      \<longrightarrow> map fst (golden_records (snd (resolve_identity r1 rec1 s1))) = map fst (golden_records r1) \<and>
          map (\<lambda>p. golden_id (snd p)) (golden_records (snd (resolve_identity r1 rec1 s1))) =
            map (\<lambda>p. golden_id (snd p)) (golden_records r1)) \<and>
   (cached_id r1 s1 (source_id_of rec1) = Some gid
      \<longrightarrow> resolve_identity r1 rec1 s1 = ((gid, False), r1)) \<and>
   (cached_id r1 s1 (source_id_of rec1) = None \<and>
    find (\<lambda>kg. merges_with rec1 s1 (snd kg)) (golden_records r1) = Some (gid, g)
      \<longrightarrow> fst (resolve_identity r1 rec1 s1) = (gid, False) \<and>
          cached_id (snd (resolve_identity r1 rec1 s1)) s1 (source_id_of rec1) = Some gid) \<and>
   (cached_id r1 s1 (source_id_of rec1) = None \<and>
    find (\<lambda>kg. merges_with rec1 s1 (snd kg)) (golden_records r1) = None
      \<longrightarrow> fst (resolve_identity r1 rec1 s1) =
            (key_golden_id (tuple_key (identity_tuple rec1)), True))"
proof (intro conjI impI)
  assume a: "snd (fst (resolve_identity r1 rec1 s1)) \<and> snd (fst (resolve_identity r2 rec2 s2)) \<and>
      identity_tuple rec1 = identity_tuple rec2"
  show "fst (fst (resolve_identity r1 rec1 s1)) = fst (fst (resolve_identity r2 rec2 s2))"
    using a resolve_new_id [of r1 rec1 s1] resolve_new_id [of r2 rec2 s2] by simp
next
  show "fst (resolve_identity new_resolver rec1 s1) =
     (key_golden_id (tuple_key (identity_tuple rec1)), True)"
    using resolve_fresh [of rec1 s1] by simp
next
  assume "identity_tuple rec1 = identity_tuple rec2"
  then show "fst (fst (resolve_identity new_resolver rec1 s1)) =
            fst (fst (resolve_identity new_resolver rec2 s2))"
    using resolve_fresh [of rec1 s1] resolve_fresh [of rec2 s2] by simp
next
  assume "identity_tuple rec1 = identity_tuple rec2"
  then show "fst (fst (resolve_identity (snd (resolve_identity new_resolver rec1 s1)) rec2 s2)) =
            fst (fst (resolve_identity new_resolver rec1 s1))"
    by (rule resolve_twice_fresh)
next
  assume "\<not> snd (fst (resolve_identity r1 rec1 s1))"
  then show "map fst (golden_records (snd (resolve_identity r1 rec1 s1))) = map fst (golden_records r1)"
    using resolve_merge_keeps_ids [of r1 rec1 s1] by simp
next
  assume "\<not> snd (fst (resolve_identity r1 rec1 s1))"
  then show "map (\<lambda>p. golden_id (snd p)) (golden_records (snd (resolve_identity r1 rec1 s1))) =
            map (\<lambda>p. golden_id (snd p)) (golden_records r1)"
    using resolve_merge_keeps_ids [of r1 rec1 s1] by simp
next
  assume "cached_id r1 s1 (source_id_of rec1) = Some gid"
  then show "resolve_identity r1 rec1 s1 = ((gid, False), r1)"
    by (rule resolve_cached)
next
  assume a: "cached_id r1 s1 (source_id_of rec1) = None \<and>
    find (\<lambda>kg. merges_with rec1 s1 (snd kg)) (golden_records r1) = Some (gid, g)"
  show "fst (resolve_identity r1 rec1 s1) = (gid, False)"
    using a resolve_first_match [of r1 s1 rec1 gid g] by simp
  show "cached_id (snd (resolve_identity r1 rec1 s1)) s1 (source_id_of rec1) = Some gid"
    using a resolve_first_match [of r1 s1 rec1 gid g] by simp
next
  assume a: "cached_id r1 s1 (source_id_of rec1) = None \<and>
    find (\<lambda>kg. merges_with rec1 s1 (snd kg)) (golden_records r1) = None"
  show "fst (resolve_identity r1 rec1 s1) =
            (key_golden_id (tuple_key (identity_tuple rec1)), True)"
    using a resolve_no_match [of r1 s1 rec1] by simp
qed

theorem C4_golden_id_witness:
  "identity_tuple ann_s1 = identity_tuple ann_dup \<and>
   snd (fst (resolve_identity new_resolver ann_s1 ''sis'')) \<and>
   snd (fst (resolve_identity new_resolver ann_dup ''lms'')) \<and>
   fst (fst (resolve_identity new_resolver ann_s1 ''sis'')) =
     fst (fst (resolve_identity new_resolver ann_dup ''lms'')) \<and>
   fst (fst (resolve_identity (snd (resolve_identity new_resolver ann_s1 ''sis'')) ann_dup ''lms'')) =
     fst (fst (resolve_identity new_resolver ann_s1 ''sis'')) \<and>
   \<not> snd (fst (resolve_identity (snd (resolve_identity new_resolver ann_s1 ''sis'')) zed_lee ''sis'')) \<and>
   map fst (golden_records (snd (resolve_identity
       (snd (resolve_identity new_resolver ann_s1 ''sis'')) zed_lee ''sis''))) =
     map fst (golden_records (snd (resolve_identity new_resolver ann_s1 ''sis''))) \<and>
   cached_id (snd (resolve_identity new_resolver ann_s1 ''sis'')) ''sis'' (source_id_of bob_s2) = None \<and>
   find (\<lambda>kg. merges_with bob_s2 ''sis'' (snd kg))
     (golden_records (snd (resolve_identity new_resolver ann_s1 ''sis''))) = None \<and>
   fst (resolve_identity (snd (resolve_identity new_resolver ann_s1 ''sis'')) bob_s2 ''sis'') =
     (''GR-255F5C892B0A'', True) \<and>
   map fst (golden_records two_goldens) = [''GR-1C6D4F355631'', ''GR-255F5C892B0A''] \<and>
   cached_id two_goldens ''sis'' (source_id_of zed_lee) = None \<and>
   find (\<lambda>kg. merges_with zed_lee ''sis'' (snd kg)) (golden_records two_goldens) =
     Some (''GR-1C6D4F355631'', new_golden ann_s1 ''sis'' ''1'') \<and>
   fst (resolve_identity two_goldens zed_lee ''sis'') = (''GR-1C6D4F355631'', False) \<and>
   cached_id (snd (resolve_identity two_goldens zed_lee ''sis'')) ''sis'' (source_id_of zed_lee) =
     Some ''GR-1C6D4F355631'' \<and>
   cached_id two_goldens ''sis'' (source_id_of ann_s1) = Some ''GR-1C6D4F355631'' \<and>
   resolve_identity two_goldens ann_s1 ''sis'' = ((''GR-1C6D4F355631'', False), two_goldens)"
proof -
  have t: "identity_tuple ann_s1 = identity_tuple ann_dup"
    by (simp add: identity_tuple_def ann_s1_def ann_dup_def dict_get_def strip_def title_def
        is_space_def is_lower_def is_upper_def upper_char_def lower_char_def)
  have n1: "snd (fst (resolve_identity new_resolver ann_s1 ''sis''))"
    using resolve_fresh [of ann_s1 "''sis''"] by simp
  have n2: "snd (fst (resolve_identity new_resolver ann_dup ''lms''))"
    using resolve_fresh [of ann_dup "''lms''"] by simp
  have m: "\<not> snd (fst (resolve_identity (snd (resolve_identity new_resolver ann_s1 ''sis'')) zed_lee ''sis''))"
    using zed_lee_resolutions by simp
  have same: "fst (fst (resolve_identity new_resolver ann_s1 ''sis'')) =
                fst (fst (resolve_identity new_resolver ann_dup ''lms'')) \<and>
              fst (fst (resolve_identity (snd (resolve_identity new_resolver ann_s1 ''sis'')) ann_dup ''lms'')) =
                fst (fst (resolve_identity new_resolver ann_s1 ''sis''))"
    using t C4_golden_id [of new_resolver ann_s1 "''sis''" new_resolver ann_dup "''lms''"]
    by blast
  have keys: "map fst (golden_records (snd (resolve_identity
                  (snd (resolve_identity new_resolver ann_s1 ''sis'')) zed_lee ''sis''))) =
              map fst (golden_records (snd (resolve_identity new_resolver ann_s1 ''sis'')))"
    using m C4_golden_id [of "snd (resolve_identity new_resolver ann_s1 ''sis'')" zed_lee "''sis''"
                            new_resolver ann_dup "''lms''"]
    by blast
  define st1 where "st1 = snd (resolve_identity new_resolver ann_s1 ''sis'')"
  have g1: "golden_records st1 = [(''GR-1C6D4F355631'', new_golden ann_s1 ''sis'' ''1'')]"
    and m1: "source_to_golden st1 = [''sis'' \<mapsto> [''1'' \<mapsto> ''GR-1C6D4F355631'']]"
    and g2: "golden_records two_goldens =
               [(''GR-1C6D4F355631'', new_golden ann_s1 ''sis'' ''1''),
                (''GR-255F5C892B0A'', new_golden bob_s2 ''sis'' ''3'')]"
    and m2: "source_to_golden two_goldens =
               [''sis'' \<mapsto> [''1'' \<mapsto> ''GR-1C6D4F355631'', ''3'' \<mapsto> ''GR-255F5C892B0A'']]"
    using two_goldens_state by (simp_all add: st1_def)
  have kb: "key_golden_id (tuple_key (identity_tuple bob_s2)) = ''GR-255F5C892B0A''"
    using two_goldens_state resolve_new_id [of st1 bob_s2 "''sis''"] by (simp add: st1_def)
  have cb: "cached_id st1 ''sis'' (source_id_of bob_s2) = None"
    by (simp add: cached_id_def source_id_of_def m1 bob_s2_def dict_get_def)
  have fb: "find (\<lambda>kg. merges_with bob_s2 ''sis'' (snd kg)) (golden_records st1) = None"
    by (simp add: g1 bob_s2_no_merge)
  have nb: "fst (resolve_identity st1 bob_s2 ''sis'') = (''GR-255F5C892B0A'', True)"
    using cb fb kb
      C4_golden_id [of st1 bob_s2 "''sis''" new_resolver ann_dup "''lms''" "[]"
                       "new_golden ann_s1 ''sis'' ''1''"]
    by simp
  have ids: "map fst (golden_records two_goldens) = [''GR-1C6D4F355631'', ''GR-255F5C892B0A'']"
    by (simp add: g2)
  have cz: "cached_id two_goldens ''sis'' (source_id_of zed_lee) = None"
    by (simp add: cached_id_def source_id_of_def m2 zed_lee_def dict_get_def)
  have fz: "find (\<lambda>kg. merges_with zed_lee ''sis'' (snd kg)) (golden_records two_goldens) =
              Some (''GR-1C6D4F355631'', new_golden ann_s1 ''sis'' ''1'')"
    by (simp add: g2 zed_lee_merges)
  have rz: "fst (resolve_identity two_goldens zed_lee ''sis'') = (''GR-1C6D4F355631'', False) \<and>
            cached_id (snd (resolve_identity two_goldens zed_lee ''sis'')) ''sis'' (source_id_of zed_lee) =
              Some ''GR-1C6D4F355631''"
    using cz fz
      C4_golden_id [of two_goldens zed_lee "''sis''" new_resolver ann_dup "''lms''"
                       "''GR-1C6D4F355631''" "new_golden ann_s1 ''sis'' ''1''"]
    by blast
  have ca: "cached_id two_goldens ''sis'' (source_id_of ann_s1) = Some ''GR-1C6D4F355631''"
    by (simp add: cached_id_def source_id_of_def m2 ann_s1_def dict_get_def)
  have ra: "resolve_identity two_goldens ann_s1 ''sis'' = ((''GR-1C6D4F355631'', False), two_goldens)"
    using ca
      C4_golden_id [of two_goldens ann_s1 "''sis''" new_resolver ann_dup "''lms''"
                       "''GR-1C6D4F355631''" "new_golden ann_s1 ''sis'' ''1''"]
    by blast
  show ?thesis
    using t n1 n2 m same keys cb fb nb ids cz fz rz ca ra
    unfolding st1_def by blast
qed

end
